theory Spec2Isabelle
  imports
    Complex_Main
    "HOL-Library.Char_ord"
    "HOL-Library.List_Lexorder"
    "HOL-Library.Product_Lexorder"
    "HOL-Library.Option_ord"
    "HOL-Library.Multiset"
    "HOL-Library.AList"
begin

section \<open>SQL values as the query templates use them\<close>

text \<open>
  The aggregation engine of \<^verbatim>\<open>ReportHelpers.py\<close> is a catalogue of SQLite query
  templates.  An SQL integer that may be \<^verbatim>\<open>NULL\<close> is an \<open>int option\<close>, with
  \<open>None\<close> for \<^verbatim>\<open>NULL\<close>.  Arithmetic propagates \<^verbatim>\<open>NULL\<close>; the division of two
  integers truncates towards zero and yields \<^verbatim>\<open>NULL\<close> for a zero divisor;
  \<^verbatim>\<open>SUM\<close> skips \<^verbatim>\<open>NULL\<close> terms and is \<^verbatim>\<open>NULL\<close> when no term is left.
\<close>

definition sql_add :: "int option \<Rightarrow> int option \<Rightarrow> int option" where
  "sql_add a b = (case a of None \<Rightarrow> None | Some x \<Rightarrow> (case b of None \<Rightarrow> None | Some y \<Rightarrow> Some (x + y)))"

definition sql_sub :: "int option \<Rightarrow> int option \<Rightarrow> int option" where
  "sql_sub a b = (case a of None \<Rightarrow> None | Some x \<Rightarrow> (case b of None \<Rightarrow> None | Some y \<Rightarrow> Some (x - y)))"

definition sql_mul :: "int option \<Rightarrow> int option \<Rightarrow> int option" where
  "sql_mul a b = (case a of None \<Rightarrow> None | Some x \<Rightarrow> (case b of None \<Rightarrow> None | Some y \<Rightarrow> Some (x * y)))"

definition trunc_div :: "int \<Rightarrow> int \<Rightarrow> int" where
  "trunc_div x y = sgn x * sgn y * (\<bar>x\<bar> div \<bar>y\<bar>)"

definition sql_div :: "int option \<Rightarrow> int option \<Rightarrow> int option" where
  "sql_div a b =
     (case a of None \<Rightarrow> None
      | Some x \<Rightarrow> (case b of None \<Rightarrow> None
                  | Some y \<Rightarrow> if y = 0 then None else Some (trunc_div x y)))"

definition non_null :: "'a option list \<Rightarrow> 'a list" where
  "non_null xs = List.map_filter (\<lambda>x. x) xs"

definition sql_sum :: "int option list \<Rightarrow> int option" where
  "sql_sum xs = (case non_null xs of [] \<Rightarrow> None | y # ys \<Rightarrow> Some (sum_list (y # ys)))"

definition sql_count_distinct :: "'a option list \<Rightarrow> int" where
  "sql_count_distinct xs = int (length (remdups (non_null xs)))"

text \<open>
  \<^verbatim>\<open>CAST(AVG(x) AS INTEGER)\<close>: the mean of the non-\<^verbatim>\<open>NULL\<close> values, truncated
  towards zero.  SQLite computes the mean in floating point; for the magnitudes of
  coverage values the truncated quotient of the exact sum by the count is the same number.
\<close>

definition sql_cast_avg :: "int option list \<Rightarrow> int option" where
  "sql_cast_avg xs =
     (case non_null xs of [] \<Rightarrow> None
      | y # ys \<Rightarrow> Some (trunc_div (sum_list (y # ys)) (int (length (y # ys)))))"

section \<open>Vulnerability queries\<close>

text \<open>
  A row of the synced vulnerability table, with the columns the queries compute with:
  the two injected context columns, the instance id read by
  \<^verbatim>\<open>json_extract(t.machineTags, '$.InstanceId')\<close>, the vulnerability id and the
  severity.  The descriptive columns that the queries only copy (host name, package,
  fix information, tags) are left out.  A row of the \<^verbatim>\<open>machines\<close> table carries the
  tenant, the account and the agent's instance id.
\<close>

record vuln_row =
  v_lwAccount :: string
  v_accountId :: string
  v_instanceId :: "string option"
  v_vulnId :: "string option"
  v_severity :: "string option"

record machine_row =
  m_lwAccount :: string
  m_accountId :: string
  tag_instanceId :: "string option"

text \<open>
  The innermost sub-select \<^verbatim>\<open>t2\<close>.  Its \<^verbatim>\<open>WHERE\<close> keeps the rows whose instance id
  is among the agent instance ids (\<^verbatim>\<open>NULL IN (...)\<close> is not true, so a row without
  instance id is dropped).  \<^verbatim>\<open>ROW_NUMBER() OVER (PARTITION BY k) = 1\<close> marks one row of
  every partition; the templates give no \<^verbatim>\<open>ORDER BY\<close>, and the model numbers the rows
  of a partition in table order, so the marked row is the first one with that key.
\<close>

record t2_row =
  t2_lwAccount :: string
  t2_accountId :: string
  t2_instanceId :: string
  t2_vulnId :: "string option"
  t2_severity :: "string option"
  t2_vulncount :: int
  t2_instcount :: int
  t2_critical :: int
  t2_high :: int
  t2_medium :: int
  t2_low :: int
  t2_info :: int

definition has_agent_rows :: "machine_row list \<Rightarrow> vuln_row list \<Rightarrow> (string \<times> vuln_row) list" where
  "has_agent_rows machines tbl =
     List.map_filter
       (\<lambda>r. case v_instanceId r of
               None \<Rightarrow> None
             | Some i \<Rightarrow> if Some i \<in> set (map tag_instanceId machines) then Some (i, r) else None)
       tbl"

definition row_number_is_1 :: "'k list \<Rightarrow> 'k \<Rightarrow> int" where
  "row_number_is_1 earlier k = (if k \<in> set earlier then 0 else 1)"

definition severity_is :: "string \<Rightarrow> string option \<Rightarrow> int" where
  "severity_is name s = (if s = Some name then 1 else 0)"

fun t2_scan :: "(string \<times> vuln_row) list \<Rightarrow> (string \<times> vuln_row) list \<Rightarrow> t2_row list" where
  "t2_scan earlier [] = []"
| "t2_scan earlier ((i, r) # rest) =
     \<lparr> t2_lwAccount = v_lwAccount r,
       t2_accountId = v_accountId r,
       t2_instanceId = i,
       t2_vulnId = v_vulnId r,
       t2_severity = v_severity r,
       t2_vulncount = row_number_is_1 (map (\<lambda>(j, x). (j, v_vulnId x)) earlier) (i, v_vulnId r),
       t2_instcount = row_number_is_1 (map fst earlier) i,
       t2_critical = severity_is ''Critical'' (v_severity r),
       t2_high = severity_is ''High'' (v_severity r),
       t2_medium = severity_is ''Medium'' (v_severity r),
       t2_low = severity_is ''Low'' (v_severity r),
       t2_info = severity_is ''Info'' (v_severity r) \<rparr>
     # t2_scan ((i, r) # earlier) rest"

definition t2 :: "machine_row list \<Rightarrow> vuln_row list \<Rightarrow> t2_row list" where
  "t2 machines tbl = t2_scan [] (has_agent_rows machines tbl)"

text \<open>
  The \<^verbatim>\<open>CASE\<close> that grades an instance.  The first condition that holds decides; the
  \<^verbatim>\<open>CASE\<close> has no \<^verbatim>\<open>ELSE\<close>, so the value is \<^verbatim>\<open>NULL\<close> when none holds.
\<close>

definition total_coverage_case :: "int \<Rightarrow> int \<Rightarrow> int \<Rightarrow> int \<Rightarrow> int \<Rightarrow> int option" where
  "total_coverage_case critical high medium low info =
     (if critical > 10 then Some 0
      else if critical > 5 then Some 5
      else if critical > 0 then Some 9
      else if high > 10 then Some 40
      else if high > 5 then Some 45
      else if high > 0 then Some 49
      else if medium > 10 then Some 60
      else if medium > 5 then Some 65
      else if medium > 0 then Some 69
      else if low > 10 then Some 70
      else if low > 5 then Some 75
      else if low > 0 then Some 79
      else if info > 10 then Some 95
      else if info > 5 then Some 90
      else if info = 0 then Some 100
      else None)"

text \<open>\<^verbatim>\<open>SUM(e) OVER (PARTITION BY t2.instanceId)\<close>, read at a row of instance \<open>i\<close>.\<close>

definition over_instance :: "(t2_row \<Rightarrow> int) \<Rightarrow> t2_row list \<Rightarrow> string \<Rightarrow> int" where
  "over_instance e rows i = sum_list (map e (filter (\<lambda>r. t2_instanceId r = i) rows))"

record t3_row =
  t3_lwAccount :: string
  t3_accountId :: string
  t3_instanceId :: string
  t3_vulnId :: "string option"
  t3_severity :: "string option"
  t3_instcount :: int
  total_violation_count :: int
  total_critical :: int
  total_high :: int
  total_medium :: int
  total_low :: int
  total_info :: int
  total_coverage :: "int option"

definition t3_of :: "t2_row list \<Rightarrow> t2_row \<Rightarrow> t3_row" where
  "t3_of rows r =
     (let i = t2_instanceId r;
          c = over_instance (\<lambda>x. t2_critical x * t2_vulncount x) rows i;
          h = over_instance (\<lambda>x. t2_high x * t2_vulncount x) rows i;
          m = over_instance (\<lambda>x. t2_medium x * t2_vulncount x) rows i;
          l = over_instance (\<lambda>x. t2_low x * t2_vulncount x) rows i;
          n = over_instance (\<lambda>x. t2_info x * t2_vulncount x) rows i
      in \<lparr> t3_lwAccount = t2_lwAccount r,
           t3_accountId = t2_accountId r,
           t3_instanceId = i,
           t3_vulnId = t2_vulnId r,
           t3_severity = t2_severity r,
           t3_instcount = t2_instcount r,
           total_violation_count = over_instance t2_vulncount rows i,
           total_critical = c,
           total_high = h,
           total_medium = m,
           total_low = l,
           total_info = n,
           total_coverage = total_coverage_case c h m l n \<rparr>)"

text \<open>
  \<^verbatim>\<open>VulnerabilityQueries["report"]\<close>: one output row per row of \<^verbatim>\<open>t2\<close>.  The same
  select is the sub-select \<^verbatim>\<open>t3\<close> of the three aggregating templates, where it also
  passes \<^verbatim>\<open>_instcount\<close> on.
\<close>

definition VulnerabilityQueries_report :: "machine_row list \<Rightarrow> vuln_row list \<Rightarrow> t3_row list" where
  "VulnerabilityQueries_report machines tbl = (let rows = t2 machines tbl in map (t3_of rows) rows)"

text \<open>
  \<^verbatim>\<open>VulnerabilityQueries["account_coverage"]\<close>: the rows of \<^verbatim>\<open>t3\<close> grouped by
  \<^verbatim>\<open>lwAccount, accountId\<close>.  The scalar sub-select over \<^verbatim>\<open>machines\<close> counts the
  distinct agent instance ids of the group's tenant and account; the \<^verbatim>\<open>machines\<close>
  table is filled from the query of \<^verbatim>\<open>get_active_machines\<close>, which returns both
  columns.  All operands of the coverage expression are integers, so its division is
  SQLite's integer division.
\<close>

record account_coverage_row =
  ac_lwAccount :: string
  ac_accountId :: string
  ac_total_assets_in_violation :: int
  ac_total_assets :: int
  ac_critical :: "int option"
  ac_high :: "int option"
  ac_medium :: "int option"
  ac_low :: "int option"
  ac_info :: "int option"
  ac_total_violation_count :: "int option"
  ac_total_coverage :: "int option"

definition total_assets_of :: "machine_row list \<Rightarrow> string \<Rightarrow> string \<Rightarrow> int" where
  "total_assets_of machines lw acc =
     sql_count_distinct
       (map tag_instanceId (filter (\<lambda>m. lw = m_lwAccount m \<and> acc = m_accountId m) machines))"

definition group_keys :: "t3_row list \<Rightarrow> (string \<times> string) list" where
  "group_keys rows = remdups (map (\<lambda>r. (t3_lwAccount r, t3_accountId r)) rows)"

definition group_rows :: "t3_row list \<Rightarrow> string \<times> string \<Rightarrow> t3_row list" where
  "group_rows rows k = filter (\<lambda>r. (t3_lwAccount r, t3_accountId r) = k) rows"

definition account_coverage_of :: "machine_row list \<Rightarrow> string \<times> string \<Rightarrow> t3_row list \<Rightarrow> account_coverage_row" where
  "account_coverage_of machines k g =
     (let in_violation = int (length (remdups (map t3_instanceId g)));
          assets = total_assets_of machines (fst k) (snd k)
      in \<lparr> ac_lwAccount = fst k,
           ac_accountId = snd k,
           ac_total_assets_in_violation = in_violation,
           ac_total_assets = assets,
           ac_critical = sql_sum (map (\<lambda>r. Some (t3_instcount r * total_critical r)) g),
           ac_high = sql_sum (map (\<lambda>r. Some (t3_instcount r * total_high r)) g),
           ac_medium = sql_sum (map (\<lambda>r. Some (t3_instcount r * total_medium r)) g),
           ac_low = sql_sum (map (\<lambda>r. Some (t3_instcount r * total_low r)) g),
           ac_info = sql_sum (map (\<lambda>r. Some (t3_instcount r * total_info r)) g),
           ac_total_violation_count =
             sql_sum (map (\<lambda>r. Some (t3_instcount r * total_violation_count r)) g),
           ac_total_coverage =
             sql_div
               (sql_add (Some ((assets - in_violation) * 100))
                  (sql_sum (map (\<lambda>r. sql_mul (Some (t3_instcount r)) (total_coverage r)) g)))
               (Some assets) \<rparr>)"

definition VulnerabilityQueries_account_coverage ::
    "machine_row list \<Rightarrow> vuln_row list \<Rightarrow> account_coverage_row list" where
  "VulnerabilityQueries_account_coverage machines tbl =
     (let t3 = VulnerabilityQueries_report machines tbl
      in map (\<lambda>k. account_coverage_of machines k (group_rows t3 k)) (group_keys t3))"

text \<open>
  \<^verbatim>\<open>VulnerabilityQueries["total_summary"]\<close> and \<^verbatim>\<open>["lwaccount_summary"]\<close> aggregate
  the rows \<^verbatim>\<open>t4\<close> of the account query once more: the first over all of them (an
  aggregate without \<^verbatim>\<open>GROUP BY\<close> returns exactly one row), the second per tenant.
\<close>

record summary_row =
  s_lwAccount :: string
  s_total_accounts :: int
  s_total_assets_in_violation :: "int option"
  s_total_assets :: "int option"
  s_critical :: "int option"
  s_high :: "int option"
  s_medium :: "int option"
  s_low :: "int option"
  s_info :: "int option"
  s_total_violation_count :: "int option"
  s_total_coverage :: "int option"

definition summary_of :: "string \<Rightarrow> account_coverage_row list \<Rightarrow> summary_row" where
  "summary_of lw t4 =
     \<lparr> s_lwAccount = lw,
       s_total_accounts = int (length (remdups (map ac_accountId t4))),
       s_total_assets_in_violation = sql_sum (map (\<lambda>r. Some (ac_total_assets_in_violation r)) t4),
       s_total_assets = sql_sum (map (\<lambda>r. Some (ac_total_assets r)) t4),
       s_critical = sql_sum (map ac_critical t4),
       s_high = sql_sum (map ac_high t4),
       s_medium = sql_sum (map ac_medium t4),
       s_low = sql_sum (map ac_low t4),
       s_info = sql_sum (map ac_info t4),
       s_total_violation_count = sql_sum (map ac_total_violation_count t4),
       s_total_coverage = sql_cast_avg (map ac_total_coverage t4) \<rparr>"

definition VulnerabilityQueries_total_summary :: "machine_row list \<Rightarrow> vuln_row list \<Rightarrow> summary_row list" where
  "VulnerabilityQueries_total_summary machines tbl =
     [summary_of ''Any'' (VulnerabilityQueries_account_coverage machines tbl)]"

definition VulnerabilityQueries_lwaccount_summary :: "machine_row list \<Rightarrow> vuln_row list \<Rightarrow> summary_row list" where
  "VulnerabilityQueries_lwaccount_summary machines tbl =
     (let t4 = VulnerabilityQueries_account_coverage machines tbl
      in map (\<lambda>lw. summary_of lw (filter (\<lambda>r. ac_lwAccount r = lw) t4)) (remdups (map ac_lwAccount t4)))"

section \<open>Compliance queries\<close>

text \<open>
  A row of the synced compliance table embeds the array \<^verbatim>\<open>recommendations\<close>; the
  queries explode it with \<^verbatim>\<open>json_each\<close> and read each control with
  \<^verbatim>\<open>json_extract\<close>, which is \<^verbatim>\<open>NULL\<close> for an absent key.  Of a violation only its
  presence in the array counts (\<^verbatim>\<open>json_array_length\<close>), so the array is a list of
  opaque entries.
\<close>

record recommendation =
  REC_ID :: "string option"
  STATUS :: "string option"
  SEVERITY :: "int option"
  VIOLATIONS :: "string list option"
  ASSESSED_RESOURCE_COUNT :: "int option"

record compliance_row =
  c_accountId :: string
  c_lwAccount :: string
  c_reportType :: string
  recommendations :: "recommendation list"

definition json_array_length :: "'a list option \<Rightarrow> int option" where
  "json_array_length a = (case a of None \<Rightarrow> None | Some xs \<Rightarrow> Some (int (length xs)))"

text \<open>The \<^verbatim>\<open>CASE\<close> naming a severity code; it has no \<^verbatim>\<open>ELSE\<close>.\<close>

definition severity_case :: "int option \<Rightarrow> string option" where
  "severity_case n =
     (if n = Some 1 then Some ''info''
      else if n = Some 2 then Some ''low''
      else if n = Some 3 then Some ''medium''
      else if n = Some 4 then Some ''high''
      else if n = Some 5 then Some ''critical''
      else None)"

text \<open>
  \<^verbatim>\<open>CAST(x AS INTEGER)\<close> of a floating-point value truncates towards zero.  The
  \<^verbatim>\<open>FLOAT\<close> arithmetic of the \<^verbatim>\<open>percent\<close> column is modelled in the reals: the
  operands are counts, and for counts below \<open>2^45\<close> the rounding of the quotient and of
  the difference never reaches the next integer, so the truncated result is the same.
\<close>

definition cast_integer :: "real \<Rightarrow> int" where
  "cast_integer x = (if 0 \<le> x then \<lfloor>x\<rfloor> else \<lceil>x\<rceil>)"

definition percent_case :: "int option \<Rightarrow> int option \<Rightarrow> int option" where
  "percent_case violation_count assessed =
     (case violation_count of
        None \<Rightarrow> None
      | Some v \<Rightarrow>
          (case assessed of
             None \<Rightarrow> None
           | Some a \<Rightarrow>
               if v > a then Some 100
               else if a = 0 then None
               else Some (cast_integer (100 - real_of_int v * 100 / real_of_int a))))"

record compliance_report_row =
  cr_accountId :: string
  cr_lwAccount :: string
  cr_reportType :: string
  cr_rec_id :: "string option"
  cr_status :: "string option"
  cr_assessed_resource_count :: "int option"
  cr_violation_count :: "int option"
  cr_severity :: "string option"
  cr_severity_number :: "int option"
  cr_percent :: "int option"

definition control_row :: "compliance_row \<Rightarrow> recommendation \<Rightarrow> compliance_report_row" where
  "control_row r c =
     \<lparr> cr_accountId = c_accountId r,
       cr_lwAccount = c_lwAccount r,
       cr_reportType = c_reportType r,
       cr_rec_id = REC_ID c,
       cr_status = STATUS c,
       cr_assessed_resource_count = ASSESSED_RESOURCE_COUNT c,
       cr_violation_count = json_array_length (VIOLATIONS c),
       cr_severity = severity_case (SEVERITY c),
       cr_severity_number = SEVERITY c,
       cr_percent = percent_case (json_array_length (VIOLATIONS c)) (ASSESSED_RESOURCE_COUNT c) \<rparr>"

text \<open>The join \<^verbatim>\<open>:db_table, json_each(:db_table.recommendations)\<close>: one row per control.\<close>

definition control_rows :: "compliance_row list \<Rightarrow> compliance_report_row list" where
  "control_rows tbl = concat (map (\<lambda>r. map (control_row r) (recommendations r)) tbl)"

text \<open>
  The \<^verbatim>\<open>WHERE\<close> of the report template, \<^verbatim>\<open>percent < 100 AND status != 'Compliant'\<close>,
  keeps a row only when both comparisons are true; a comparison with \<^verbatim>\<open>NULL\<close> is not.
\<close>

definition report_where :: "compliance_report_row \<Rightarrow> bool" where
  "report_where r =
     ((case cr_percent r of None \<Rightarrow> False | Some p \<Rightarrow> p < 100) \<and>
      (case cr_status r of None \<Rightarrow> False | Some s \<Rightarrow> s \<noteq> ''Compliant''))"

definition ComplianceQueries_report :: "compliance_row list \<Rightarrow> compliance_report_row list" where
  "ComplianceQueries_report tbl =
     sort_key (\<lambda>r. (cr_accountId r, cr_reportType r, cr_rec_id r))
       (filter report_where (control_rows tbl))"

text \<open>
  The three aggregating templates share their select list.  The sums run over integer
  columns, so \<^verbatim>\<open>SUM(..)*100/SUM(..)\<close> is an integer division.
\<close>

definition sql_gt :: "int option \<Rightarrow> int option \<Rightarrow> bool" where
  "sql_gt a b = (case a of None \<Rightarrow> False | Some x \<Rightarrow> (case b of None \<Rightarrow> False | Some y \<Rightarrow> x > y))"

definition null_to_0 :: "int option \<Rightarrow> int" where
  "null_to_0 a = (case a of None \<Rightarrow> 0 | Some x \<Rightarrow> x)"

definition sum_case_severity :: "int \<Rightarrow> compliance_report_row list \<Rightarrow> int option" where
  "sum_case_severity n g =
     sql_sum (map (\<lambda>r. if cr_severity_number r = Some n then cr_violation_count r else Some 0) g)"

record compliance_coverage_row =
  cc_accountId :: string
  cc_lwAccount :: string
  cc_total_accounts :: int
  cc_total_coverage :: "int option"
  cc_total_assessed_resource_count :: int
  cc_total_violation_count :: int
  cc_critical :: "int option"
  cc_high :: "int option"
  cc_medium :: "int option"
  cc_low :: "int option"
  cc_info :: "int option"

definition compliance_aggregate :: "string \<Rightarrow> string \<Rightarrow> compliance_report_row list \<Rightarrow> compliance_coverage_row" where
  "compliance_aggregate acc lw g =
     (let violations = sql_sum (map cr_violation_count g);
          assessed = sql_sum (map cr_assessed_resource_count g)
      in \<lparr> cc_accountId = acc,
           cc_lwAccount = lw,
           cc_total_accounts = int (length (remdups (map cr_accountId g))),
           cc_total_coverage =
             (if sql_gt violations assessed then Some 100
              else sql_sub (Some 100) (sql_div (sql_mul violations (Some 100)) assessed)),
           cc_total_assessed_resource_count = null_to_0 assessed,
           cc_total_violation_count = null_to_0 violations,
           cc_critical = sum_case_severity 1 g,
           cc_high = sum_case_severity 2 g,
           cc_medium = sum_case_severity 3 g,
           cc_low = sum_case_severity 4 g,
           cc_info = sum_case_severity 5 g \<rparr>)"

text \<open>
  \<^verbatim>\<open>account_coverage\<close> groups by \<^verbatim>\<open>accountId, lwAccount\<close> and orders its rows;
  \<^verbatim>\<open>total_summary\<close> is one aggregate over all controls with the constant tenant
  \<^verbatim>\<open>'Any'\<close>; \<^verbatim>\<open>lwaccount_summary\<close> groups by tenant.  The first has no
  \<^verbatim>\<open>total_accounts\<close> column and the other two no \<^verbatim>\<open>accountId\<close>; the record keeps
  both fields for all three, the unused \<^verbatim>\<open>accountId\<close> being empty.
\<close>

definition ComplianceQueries_account_coverage :: "compliance_row list \<Rightarrow> compliance_coverage_row list" where
  "ComplianceQueries_account_coverage tbl =
     (let t = control_rows tbl
      in sort_key (\<lambda>r. (cc_accountId r, cc_lwAccount r, cc_total_coverage r))
           (map (\<lambda>k. compliance_aggregate (fst k) (snd k)
                        (filter (\<lambda>r. (cr_accountId r, cr_lwAccount r) = k) t))
              (remdups (map (\<lambda>r. (cr_accountId r, cr_lwAccount r)) t))))"

definition ComplianceQueries_total_summary :: "compliance_row list \<Rightarrow> compliance_coverage_row list" where
  "ComplianceQueries_total_summary tbl = [compliance_aggregate [] ''Any'' (control_rows tbl)]"

definition ComplianceQueries_lwaccount_summary :: "compliance_row list \<Rightarrow> compliance_coverage_row list" where
  "ComplianceQueries_lwaccount_summary tbl =
     (let t = control_rows tbl
      in map (\<lambda>lw. compliance_aggregate [] lw (filter (\<lambda>r. cr_lwAccount r = lw) t))
           (remdups (map cr_lwAccount t)))"

section \<open>Python values, strings and exceptions\<close>

text \<open>
  A JSON-shaped Python value; a report row is a \<^verbatim>\<open>dict\<close> from keys to values, kept
  as an association list in insertion order.  \<^verbatim>\<open>bool\<close> is a subclass of \<^verbatim>\<open>int\<close>
  in Python and is an \<open>PInt\<close> here.
\<close>

datatype pyval =
    PNone
  | PInt int
  | PFloat real
  | PStr string
  | PList "pyval list"
  | PDict "(string \<times> pyval) list"

type_synonym row = "(string \<times> pyval) list"

datatype operational_error =
    NoColumnNamed string
  | DuplicateColumnName string
  | NoSuchTable
  | SyntaxError

datatype py_error =
    IndexError
  | ValueError
  | TypeError
  | KeyError string
  | ApiError
  | OperationalError operational_error
  | Exception string

text \<open>\<^verbatim>\<open>str.split(sep)\<close> for a one-character separator: never an empty list.\<close>

fun split_on :: "char \<Rightarrow> string \<Rightarrow> string list" where
  "split_on sep [] = [[]]"
| "split_on sep (c # cs) =
     (if c = sep then [] # split_on sep cs
      else (case split_on sep cs of [] \<Rightarrow> [[c]] | w # ws \<Rightarrow> (c # w) # ws))"

text \<open>\<^verbatim>\<open>str.upper()\<close> on ASCII letters, which is what the identifiers consist of.\<close>

definition upper_char :: "char \<Rightarrow> char" where
  "upper_char c =
     (if CHR ''a'' \<le> c \<and> c \<le> CHR ''z'' then char_of (of_char c - (32::nat)) else c)"

definition upper :: "string \<Rightarrow> string" where
  "upper s = map upper_char s"

text \<open>How an f-string renders a value that may be \<^verbatim>\<open>None\<close>.\<close>

definition fmt :: "string option \<Rightarrow> string" where
  "fmt v = (case v of None \<Rightarrow> ''None'' | Some s \<Rightarrow> s)"

section \<open>Cloud account discovery\<close>

text \<open>
  \<^verbatim>\<open>get_cloud_accounts\<close> reads the integration records returned by
  \<^verbatim>\<open>client.cloud_accounts.search\<close> and the rows of its telemetry query; both are
  inputs of the model.  An integration record carries the fields the function reads:
  the keys of \<^verbatim>\<open>state.details.projectErrors\<close> and
  \<^verbatim>\<open>state.details.subscriptionErrors\<close> as lists, \<^verbatim>\<open>data.id\<close>, \<^verbatim>\<open>data.idType\<close>,
  \<^verbatim>\<open>data.crossAccountCredentials.roleArn\<close> and \<^verbatim>\<open>data.tenantId\<close>.  The records are
  taken as the API documents them, with every field the function reads present; a
  role ARN with fewer than five parts is the one malformed input the model keeps, as
  the \<^verbatim>\<open>IndexError\<close> of \<^verbatim>\<open>split(":")[4]\<close>.
\<close>

record integration =
  i_type :: string
  i_name :: string
  i_isOrg :: bool
  i_enabled :: bool
  i_state_ok :: bool
  i_projectErrors :: "string list"
  i_data_id :: string
  i_data_idType :: string
  i_roleArn :: string
  i_subscriptionErrors :: "string list"
  i_tenantId :: string

record machine_account =
  ACCOUNTID :: "string option"
  PROJECTID :: "string option"
  VMPROVIDER :: "string option"

record cloud_account =
  a_lwAccount :: string
  a_accountId :: string
  a_name :: string
  a_isOrg :: "bool option"
  a_enabled :: bool
  a_state :: "bool option"
  a_type :: string

record discovery =
  accounts :: "cloud_account list"
  aws_accounts :: "string list"
  gcp_accounts :: "string list"
  azure_accounts :: "string list"

definition integration_data :: "string \<Rightarrow> string \<Rightarrow> integration \<Rightarrow> cloud_account" where
  "integration_data lw account_id r =
     \<lparr> a_lwAccount = lw, a_accountId = account_id, a_name = i_name r,
       a_isOrg = Some (i_isOrg r), a_enabled = i_enabled r,
       a_state = Some (i_state_ok r), a_type = i_type r \<rparr>"

definition lql_data :: "string \<Rightarrow> string \<Rightarrow> string \<Rightarrow> cloud_account" where
  "lql_data lw account_id ty =
     \<lparr> a_lwAccount = lw, a_accountId = account_id, a_name = ''LQL Discovered'',
       a_isOrg = None, a_enabled = True, a_state = None, a_type = ty \<rparr>"

definition gcp_orgId :: "string option \<Rightarrow> integration \<Rightarrow> string option" where
  "gcp_orgId organization r =
     (let orgId = (if i_data_idType r = ''ORGANIZATION'' then Some (i_data_id r) else None)
      in if (organization \<noteq> None \<and> orgId \<noteq> None) \<or> orgId \<noteq> None then orgId
         else if organization \<noteq> None then organization
         else orgId)"

definition add_gcp_project :: "string \<Rightarrow> string option \<Rightarrow> integration \<Rightarrow> string \<Rightarrow> discovery \<Rightarrow> discovery" where
  "add_gcp_project lw orgId r projectId st =
     (let accountId = ''gcp:'' @ fmt orgId @ '':'' @ projectId
      in if projectId \<notin> set (gcp_accounts st)
         then st\<lparr> accounts := accounts st @ [integration_data lw accountId r],
                  gcp_accounts := gcp_accounts st @ [projectId] \<rparr>
         else st)"

definition add_azure_subscription :: "string \<Rightarrow> integration \<Rightarrow> string \<Rightarrow> discovery \<Rightarrow> discovery" where
  "add_azure_subscription lw r subscriptionId st =
     (let accountId = ''az:'' @ i_tenantId r @ '':'' @ upper subscriptionId
      in if upper subscriptionId \<notin> set (azure_accounts st)
         then st\<lparr> accounts := accounts st @ [integration_data lw accountId r],
                  azure_accounts := azure_accounts st @ [upper subscriptionId] \<rparr>
         else st)"

definition integration_row :: "string \<Rightarrow> string option \<Rightarrow> discovery \<Rightarrow> integration \<Rightarrow> py_error + discovery" where
  "integration_row lw organization st r =
     (if i_type r = ''GcpCfg'' then
        Inr (fold (add_gcp_project lw (gcp_orgId organization r) r) (i_projectErrors r) st)
      else if i_type r = ''AwsCfg'' then
        (let parts = split_on CHR '':'' (i_roleArn r)
         in if length parts \<le> 4 then Inl IndexError
            else (let account = parts ! 4; accountId = ''aws:'' @ account
                  in if account \<notin> set (aws_accounts st)
                     then Inr (st\<lparr> accounts := accounts st @ [integration_data lw accountId r],
                                   aws_accounts := aws_accounts st @ [account] \<rparr>)
                     else Inr st))
      else if i_type r = ''AzureCfg'' then
        Inr (fold (add_azure_subscription lw r) (i_subscriptionErrors r) st)
      else Inr st)"

fun integration_pass :: "string \<Rightarrow> string option \<Rightarrow> discovery \<Rightarrow> integration list \<Rightarrow> py_error + discovery" where
  "integration_pass lw organization st [] = Inr st"
| "integration_pass lw organization st (r # rs) =
     (case integration_row lw organization st r of
        Inl e \<Rightarrow> Inl e
      | Inr st' \<Rightarrow> integration_pass lw organization st' rs)"

definition telemetry_row :: "string \<Rightarrow> machine_account \<Rightarrow> discovery \<Rightarrow> discovery" where
  "telemetry_row lw m st =
     (if ACCOUNTID m \<noteq> None \<and> VMPROVIDER m = Some ''AWS'' \<and> the (ACCOUNTID m) \<notin> set (aws_accounts st) then
        (let accountId = ''aws:'' @ the (ACCOUNTID m)
         in if last (split_on CHR '':'' accountId) \<notin> set (aws_accounts st)
            then st\<lparr> accounts := accounts st @ [lql_data lw accountId ''AwsLql''],
                     aws_accounts := aws_accounts st @ [the (ACCOUNTID m)] \<rparr>
            else st)
      else if PROJECTID m \<noteq> None \<and> VMPROVIDER m = Some ''GCE'' \<and> the (PROJECTID m) \<notin> set (gcp_accounts st) then
        (let accountId = ''gcp::'' @ the (PROJECTID m)
         in if last (split_on CHR '':'' accountId) \<notin> set (gcp_accounts st)
            then st\<lparr> accounts := accounts st @ [lql_data lw accountId ''GcpLql''],
                     gcp_accounts := gcp_accounts st @ [the (PROJECTID m)] \<rparr>
            else st)
      else if PROJECTID m \<noteq> None \<and> VMPROVIDER m = Some ''Azure'' \<and> the (PROJECTID m) \<notin> set (azure_accounts st) then
        (let accountId = ''az::'' @ the (PROJECTID m)
         in if last (split_on CHR '':'' accountId) \<notin> set (azure_accounts st)
            then st\<lparr> accounts := accounts st @ [lql_data lw accountId ''AzureLql''],
                     azure_accounts := azure_accounts st @ [the (PROJECTID m)] \<rparr>
            else st)
      else st)"

definition telemetry_pass :: "string \<Rightarrow> discovery \<Rightarrow> machine_account list \<Rightarrow> discovery" where
  "telemetry_pass lw st ms = fold (telemetry_row lw) ms st"

definition get_cloud_accounts ::
    "integration list \<Rightarrow> machine_account list \<Rightarrow> string \<Rightarrow> string option \<Rightarrow> py_error + cloud_account list" where
  "get_cloud_accounts cloud_accounts_data machine_accounts lw organization =
     (case integration_pass lw organization
             \<lparr> accounts = [], aws_accounts = [], gcp_accounts = [], azure_accounts = [] \<rparr>
             cloud_accounts_data of
        Inl e \<Rightarrow> Inl e
      | Inr st \<Rightarrow> Inr (accounts (telemetry_pass lw st machine_accounts)))"

section \<open>The schema-evolving sync store\<close>

text \<open>
  A table of the SQLite cache: its columns with their declared types, and its rows in
  insertion order, each stored as the dictionary that was inserted.  A column that a
  stored row has no entry for reads as \<^verbatim>\<open>NULL\<close>, which is how SQLite shows a column
  added after the row was written.  Column names are compared as the strings they are.
\<close>

datatype column_type = JSON | INTEGER | TEXT | Inferred string

record sql_table =
  columns :: "(string \<times> column_type) list"
  rows :: "row list"

datatype statement =
    ToSql row
  | SelectLimit1
  | AlterAddColumn string column_type

record connection =
  db_table :: "sql_table option"
  statements :: "statement list"

definition is_list_or_dict :: "pyval \<Rightarrow> bool" where
  "is_list_or_dict v = (case v of PList _ \<Rightarrow> True | PDict _ \<Rightarrow> True | _ \<Rightarrow> False)"

text \<open>
  \<^verbatim>\<open>df.to_sql(name, con, index=False, if_exists="append", dtype=dtypes)\<close> for the
  one-row frame of \<open>r\<close>.  The library call is outside the repository; its contract is:
  when the table is absent it is created with one column per key, typed \<^verbatim>\<open>JSON\<close>
  where \<open>dtypes\<close> says so and by the library's own inference \<open>infer\<close> otherwise, and the
  row is inserted; when the table exists the row is inserted, which SQLite refuses with
  ``table ... has no column named ...'' for a key that is no column.  A table without
  columns cannot be created (SQLite reports a syntax error).
\<close>

definition to_sql :: "(pyval \<Rightarrow> column_type) \<Rightarrow> sql_table option \<Rightarrow> row \<Rightarrow> py_error + sql_table" where
  "to_sql infer db r =
     (case db of
        None \<Rightarrow>
          if r = [] then Inl (OperationalError SyntaxError)
          else Inr \<lparr> columns = map (\<lambda>(k, v). (k, if is_list_or_dict v then JSON else infer v)) r,
                     rows = [r] \<rparr>
      | Some t \<Rightarrow>
          (case filter (\<lambda>k. k \<notin> set (map fst (columns t))) (map fst r) of
             [] \<Rightarrow> Inr (t\<lparr> rows := rows t @ [r] \<rparr>)
           | k # _ \<Rightarrow> Inl (OperationalError (NoColumnNamed k))))"

text \<open>\<^verbatim>\<open>con.execute("SELECT * FROM t LIMIT 1").fetchall()[0].keys()\<close>\<close>

definition select_limit_1_keys :: "sql_table option \<Rightarrow> py_error + string list" where
  "select_limit_1_keys db =
     (case db of
        None \<Rightarrow> Inl (OperationalError NoSuchTable)
      | Some t \<Rightarrow> (case rows t of [] \<Rightarrow> Inl IndexError | _ # _ \<Rightarrow> Inr (map fst (columns t))))"

text \<open>\<^verbatim>\<open>ALTER TABLE t ADD column c ty\<close>\<close>

definition alter_add_column :: "string \<Rightarrow> column_type \<Rightarrow> sql_table option \<Rightarrow> py_error + sql_table option" where
  "alter_add_column c ty db =
     (case db of
        None \<Rightarrow> Inl (OperationalError NoSuchTable)
      | Some t \<Rightarrow>
          if c \<in> set (map fst (columns t)) then Inl (OperationalError (DuplicateColumnName c))
          else Inr (Some (t\<lparr> columns := columns t @ [(c, ty)] \<rparr>)))"

text \<open>The type the repair chooses for a missing column, from the value the row holds.\<close>

definition column_type_of :: "pyval \<Rightarrow> column_type" where
  "column_type_of v =
     (case v of
        PList _ \<Rightarrow> JSON
      | PDict _ \<Rightarrow> JSON
      | PInt _ \<Rightarrow> INTEGER
      | _ \<Rightarrow> TEXT)"

definition row_get :: "row \<Rightarrow> string \<Rightarrow> pyval" where
  "row_get r k = (case map_of r k of None \<Rightarrow> PNone | Some v \<Rightarrow> v)"

fun add_missing_columns :: "row \<Rightarrow> string list \<Rightarrow> sql_table option \<Rightarrow> py_error + sql_table option" where
  "add_missing_columns r [] db = Inr db"
| "add_missing_columns r (c # cs) db =
     (case alter_add_column c (column_type_of (row_get r c)) db of
        Inl e \<Rightarrow> Inl e
      | Inr db' \<Rightarrow> add_missing_columns r cs db')"

text \<open>
  One turn of the loop \<^verbatim>\<open>for row in report\<close>.  An \<^verbatim>\<open>OperationalError\<close> whose text
  does not match \<^verbatim>\<open>" table \S+ has no column named"\<close> is caught and dropped; every error
  raised inside the handler leaves the function.
\<close>

definition sync_row :: "(pyval \<Rightarrow> column_type) \<Rightarrow> connection \<Rightarrow> row \<Rightarrow> py_error + connection" where
  "sync_row infer con r =
     (case to_sql infer (db_table con) r of
        Inr t \<Rightarrow> Inr \<lparr> db_table = Some t, statements = statements con @ [ToSql r] \<rparr>
      | Inl (OperationalError (NoColumnNamed _)) \<Rightarrow>
          (case select_limit_1_keys (db_table con) of
             Inl e \<Rightarrow> Inl e
           | Inr cols \<Rightarrow>
               (let missing_columns = filter (\<lambda>x. x \<notin> set cols) (map fst r)
                in case add_missing_columns r missing_columns (db_table con) of
                     Inl e \<Rightarrow> Inl e
                   | Inr db' \<Rightarrow>
                       (case to_sql infer db' r of
                          Inl e \<Rightarrow> Inl e
                        | Inr t \<Rightarrow>
                            Inr \<lparr> db_table = Some t,
                                  statements =
                                    statements con @ [ToSql r, SelectLimit1]
                                    @ map (\<lambda>c. AlterAddColumn c (column_type_of (row_get r c))) missing_columns
                                    @ [ToSql r] \<rparr>)))
      | Inl (OperationalError _) \<Rightarrow>
          Inr (con\<lparr> statements := statements con @ [ToSql r] \<rparr>)
      | Inl e \<Rightarrow> Inl e)"

fun sync_rows :: "(pyval \<Rightarrow> column_type) \<Rightarrow> connection \<Rightarrow> row list \<Rightarrow> py_error + connection" where
  "sync_rows infer con [] = Inr con"
| "sync_rows infer con (r # rs) =
     (case sync_row infer con r of
        Inl e \<Rightarrow> Inl e
      | Inr con' \<Rightarrow> sync_rows infer con' rs)"

text \<open>
  A named query is a function of the table; \<^verbatim>\<open>pd.read_sql_query\<close> raises what the
  engine raises.  \<^verbatim>\<open>ComplianceQueries["lwaccount"]\<close> and
  \<^verbatim>\<open>VulnerabilityQueries["lwaccount"]\<close> are the same text,
  \<^verbatim>\<open>SELECT DISTINCT lwaccount FROM :db_table\<close>; SQLite resolves the name to the column
  \<^verbatim>\<open>lwAccount\<close> and labels the result with the column's declared name.
\<close>

type_synonym query = "sql_table option \<Rightarrow> py_error + row list"


fun run_queries :: "(string \<times> query) list \<Rightarrow> sql_table option \<Rightarrow> py_error + (string \<times> row list) list" where
  "run_queries [] db = Inr []"
| "run_queries ((name, q) # qs) db =
     (case q db of
        Inl e \<Rightarrow> Inl e
      | Inr res \<Rightarrow> (case run_queries qs db of Inl e \<Rightarrow> Inl e | Inr rest \<Rightarrow> Inr ((name, res) # rest)))"

text \<open>
  \<^verbatim>\<open>sqlite_sync_report\<close>: the table is dropped first, the rows are synced one by one,
  then the queries run.  The result pairs the returned dictionary with the connection,
  whose table outlives the call when \<^verbatim>\<open>db_path_override\<close> names a file.
\<close>

definition sqlite_sync_report ::
    "(pyval \<Rightarrow> column_type) \<Rightarrow> row list \<Rightarrow> (string \<times> query) list
      \<Rightarrow> py_error + ((string \<times> row list) list \<times> connection)" where
  "sqlite_sync_report infer report queries =
     (case sync_rows infer \<lparr> db_table = None, statements = [] \<rparr> report of
        Inl e \<Rightarrow> Inl e
      | Inr con \<Rightarrow>
          (case run_queries queries (db_table con) of
             Inl e \<Rightarrow> Inl e
           | Inr results \<Rightarrow> Inr (results, con)))"

section \<open>Fetching a compliance report\<close>

text \<open>
  The Lacework client is a collaborator: each of its three report calls either raises
  \<^verbatim>\<open>ApiError\<close> or returns the list \<^verbatim>\<open>report["data"]\<close>.  The model records what the
  function does besides returning: the calls it makes and the lines it logs.
\<close>

datatype event =
    Get_latest_aws_report string string
  | Get_latest_gcp_report "string option" string string
  | Get_latest_azure_report string string string
  | Logging_warn
  | Logging_error

record compliance_client =
  get_latest_aws_report :: "string \<Rightarrow> string \<Rightarrow> row list option"
  get_latest_gcp_report :: "string option \<Rightarrow> string \<Rightarrow> string \<Rightarrow> row list option"
  get_latest_azure_report :: "string \<Rightarrow> string \<Rightarrow> string \<Rightarrow> row list option"

text \<open>\<^verbatim>\<open>r = report["data"].pop()\<close>, the assignments of the context and the \<^verbatim>\<open>r.pop(key)\<close>.\<close>

fun pop_keys :: "string list \<Rightarrow> row \<Rightarrow> py_error + row" where
  "pop_keys [] r = Inr r"
| "pop_keys (k # ks) r =
     (if k \<in> set (map fst r) then pop_keys ks (AList.delete k r) else Inl (KeyError k))"

definition with_context :: "string \<Rightarrow> string \<Rightarrow> row \<Rightarrow> row" where
  "with_context cloud_account lw r =
     AList.update ''lwAccount'' (PStr lw) (AList.update ''accountId'' (PStr cloud_account) r)"

definition take_report ::
    "bool \<Rightarrow> string \<Rightarrow> string \<Rightarrow> string list \<Rightarrow> event \<Rightarrow> row list option \<Rightarrow> event list \<times> (py_error + row list)" where
  "take_report ignore_errors cloud_account lw popped call response =
     (case response of
        None \<Rightarrow> ([call, Logging_error], if \<not> ignore_errors then Inl ApiError else Inr [])
      | Some data \<Rightarrow>
          (case rev data of
             [] \<Rightarrow> ([call], Inl IndexError)
           | r # _ \<Rightarrow>
               (case pop_keys popped (with_context cloud_account lw r) of
                  Inl e \<Rightarrow> ([call], Inl e)
                | Inr r' \<Rightarrow> ([call], Inr [r']))))"

text \<open>
  \<^verbatim>\<open>get_compliance_report\<close>.  The three parts of a GCP key come from
  \<^verbatim>\<open>cloud_account.split(":")\<close>, so \<open>orgId\<close> is a string; the model keeps it as
  \<open>Some\<close> of that string to state the test \<^verbatim>\<open>orgId is None\<close> as the source has it.
  In the branch of that test the warning's text indexes the string \<open>cloud_account\<close> with
  \<^verbatim>\<open>'projectIds'\<close>, which raises \<^verbatim>\<open>TypeError\<close> before anything is logged.
\<close>

definition get_compliance_report ::
    "compliance_client \<Rightarrow> string \<Rightarrow> string \<Rightarrow> string \<Rightarrow> string \<Rightarrow> string \<Rightarrow> bool \<Rightarrow> string option
      \<Rightarrow> event list \<times> (py_error + row list)" where
  "get_compliance_report client lw cloud_account aws_compliance gcp_compliance azure_compliance
       ignore_errors organization =
     (let cloud_account_details = split_on CHR '':'' cloud_account;
          csp = hd cloud_account_details
      in if csp = ''aws'' then
           (case cloud_account_details of
              _ # accountId # _ \<Rightarrow>
                take_report ignore_errors cloud_account lw []
                  (Get_latest_aws_report accountId aws_compliance)
                  (get_latest_aws_report client accountId aws_compliance)
            | _ \<Rightarrow> ([], Inl IndexError))
         else if csp = ''gcp'' then
           (case cloud_account_details of
              [_, orgId_segment, projectId] \<Rightarrow>
                (let orgId = Some orgId_segment
                 in if organization = None \<and> orgId = None then ([], Inl TypeError)
                    else
                      (let orgId' =
                             (if (organization \<noteq> None \<and> orgId \<noteq> None) \<or> orgId \<noteq> None then orgId
                              else if organization \<noteq> None then organization
                              else orgId)
                       in take_report ignore_errors cloud_account lw [''organizationId'', ''projectId'']
                            (Get_latest_gcp_report orgId' projectId gcp_compliance)
                            (get_latest_gcp_report client orgId' projectId gcp_compliance)))
            | _ \<Rightarrow> ([], Inl ValueError))
         else if csp = ''az'' then
           (case cloud_account_details of
              [_, tenantId, subscriptionId] \<Rightarrow>
                take_report ignore_errors cloud_account lw [''tenantId'', ''subscriptionId'']
                  (Get_latest_azure_report tenantId subscriptionId azure_compliance)
                  (get_latest_azure_report client tenantId subscriptionId azure_compliance)
            | _ \<Rightarrow> ([], Inl ValueError))
         else ([], Inr []))"

section \<open>Fetching a vulnerability report\<close>

datatype ReportSeverityTypes = CRITICAL | HIGH | MEDIUM | LOW | INFO

datatype DataHandlerTypes = SQLITE | DICT

datatype filter_spec =
    Filter_values string string "string list"
  | Filter_value string string pyval

fun severity_types :: "ReportSeverityTypes \<Rightarrow> string list" where
  "severity_types CRITICAL = [''Critical'']"
| "severity_types HIGH = [''Critical'', ''High'']"
| "severity_types MEDIUM = [''Critical'', ''High'', ''Medium'']"
| "severity_types LOW = [''Critical'', ''High'', ''Medium'', ''Low'']"
| "severity_types INFO = [''Critical'', ''High'', ''Medium'', ''Low'', ''Info'']"

definition base_filters :: "bool \<Rightarrow> ReportSeverityTypes \<Rightarrow> string option \<Rightarrow> string option \<Rightarrow> filter_spec list" where
  "base_filters fixable sev namespace cve =
     [Filter_values ''status'' ''in'' [''New'', ''Active'', ''Reopened''],
      Filter_values ''severity'' ''in'' (severity_types sev),
      Filter_value ''fixInfo.fix_available'' ''eq'' (PInt (if fixable then 1 else 0))]
     @ (case namespace of None \<Rightarrow> [] | Some n \<Rightarrow> [Filter_value ''featureKey.namespace'' ''rlike'' (PStr n)])
     @ (case cve of None \<Rightarrow> [] | Some c \<Rightarrow> [Filter_value ''vulnId'' ''rlike'' (PStr c)])"

text \<open>
  The filters of the account.  Unpacking \<^verbatim>\<open>cloud_account.split(":")\<close> into two or
  three names raises \<^verbatim>\<open>ValueError\<close> for any other number of parts.
\<close>

definition account_filters :: "string \<Rightarrow> py_error + filter_spec list" where
  "account_filters cloud_account =
     (let cloud_account_details = split_on CHR '':'' cloud_account;
          csp = hd cloud_account_details
      in if csp = ''aws'' then
           (case cloud_account_details of
              [_, accountId] \<Rightarrow>
                Inr [Filter_values ''machineTags.VmProvider'' ''in'' [''AWS''],
                     Filter_value ''machineTags.Account'' ''eq'' (PStr accountId)]
            | _ \<Rightarrow> Inl ValueError)
         else if csp = ''gcp'' then
           (case cloud_account_details of
              [_, orgId, projectId] \<Rightarrow>
                Inr [Filter_value ''machineTags.VmProvider'' ''eq'' (PStr ''GCE''),
                     Filter_value ''machineTags.ProjectId'' ''eq'' (PStr projectId)]
            | _ \<Rightarrow> Inl ValueError)
         else if csp = ''az'' then
           (case cloud_account_details of
              [_, tenantId, subscriptionId] \<Rightarrow>
                Inr [Filter_values ''machineTags.VmProvider'' ''in'' [''Azure''],
                     Filter_values ''machineTags.ProjectId'' ''in'' [subscriptionId]]
            | _ \<Rightarrow> Inl ValueError)
         else Inr [])"

text \<open>
  What \<^verbatim>\<open>get_vulnerability_report\<close> returns: the variable \<open>result\<close> starts as a list
  of rows and, on the SQLite path, is assigned the key view of the probed row.
\<close>

datatype report_value = Rows "row list" | Keys "string list"

text \<open>
  \<^verbatim>\<open>UPDATE t SET c = 'v' WHERE c IS NULL\<close>: a stored row reads \<^verbatim>\<open>NULL\<close> in \<open>c\<close>
  when it has no entry for \<open>c\<close> or the entry is \<^verbatim>\<open>None\<close>.
\<close>

definition update_where_null :: "string \<Rightarrow> string \<Rightarrow> sql_table \<Rightarrow> sql_table" where
  "update_where_null c v t =
     t\<lparr> rows := map (\<lambda>r. if row_get r c = PNone then AList.update c (PStr v) r else r) (rows t) \<rparr>"

definition add_context_columns :: "string \<Rightarrow> string \<Rightarrow> sql_table option \<Rightarrow> py_error + (report_value \<times> sql_table option)" where
  "add_context_columns cloud_account lw db =
     (case db of
        None \<Rightarrow> Inr (Rows [], None)
      | Some t \<Rightarrow>
          (case select_limit_1_keys db of
             Inl e \<Rightarrow> Inl e
           | Inr cols \<Rightarrow>
               (case (if ''accountId'' \<notin> set cols \<or> ''lwAccount'' \<notin> set cols
                      then (case alter_add_column ''accountId'' TEXT db of
                              Inl e \<Rightarrow> Inl e
                            | Inr db' \<Rightarrow> alter_add_column ''lwAccount'' TEXT db')
                      else Inr db) of
                  Inl e \<Rightarrow> Inl e
                | Inr None \<Rightarrow> Inl (OperationalError NoSuchTable)
                | Inr (Some t') \<Rightarrow>
                    Inr (Keys cols,
                         Some (update_where_null ''lwAccount'' lw
                                 (update_where_null ''accountId'' cloud_account t'))))))"

text \<open>
  \<^verbatim>\<open>get_vulnerability_report\<close>.  The query handler and the export handler are
  collaborators outside the repository's sources; \<open>export\<close> stands for
  \<^verbatim>\<open>ExportHandler(format, results=QueryHandler(..., filters).execute(), db_connection, db_table).export()\<close>:
  given the format, the filters and the table it either raises \<^verbatim>\<open>ApiError\<close>
  (\<open>None\<close>) or yields the value the export returns together with the table as the
  export left it.
\<close>

definition get_vulnerability_report ::
    "(DataHandlerTypes \<Rightarrow> filter_spec list \<Rightarrow> sql_table option \<Rightarrow> (row list \<times> sql_table option) option)
      \<Rightarrow> string \<Rightarrow> string \<Rightarrow> bool \<Rightarrow> bool \<Rightarrow> ReportSeverityTypes \<Rightarrow> string option \<Rightarrow> string option
      \<Rightarrow> bool \<Rightarrow> sql_table option \<Rightarrow> py_error + (report_value \<times> sql_table option)" where
  "get_vulnerability_report export lw cloud_account ignore_errors fixable sev namespace cve use_sqlite db =
     (case account_filters cloud_account of
        Inl e \<Rightarrow> Inl e
      | Inr fs \<Rightarrow>
          (let format_type = (if use_sqlite then SQLITE else DICT)
           in case export format_type (base_filters fixable sev namespace cve @ fs) db of
                None \<Rightarrow> if \<not> ignore_errors then Inl ApiError else Inr (Rows [], db)
              | Some (report, db') \<Rightarrow>
                  if use_sqlite then add_context_columns cloud_account lw db'
                  else Inr (Rows (map (with_context cloud_account lw) report), db')))"

section \<open>The deduplicated bucket counts of the specification\<close>

text \<open>
  One row for every key, the first one in list order.  The deduplicated count of a
  severity for an instance, read off the report rows: among the rows of the instance,
  one row for every vulnerability id, those of the given severity are counted.
\<close>

fun first_by :: "('a \<Rightarrow> 'k) \<Rightarrow> 'a list \<Rightarrow> 'a list" where
  "first_by k [] = []"
| "first_by k (x # xs) = x # first_by k (filter (\<lambda>y. k y \<noteq> k x) xs)"

definition deduplicated_count :: "t3_row list \<Rightarrow> string \<Rightarrow> string \<Rightarrow> int" where
  "deduplicated_count report i name =
     int (length (filter (\<lambda>r. t3_severity r = Some name)
                    (first_by t3_vulnId (filter (\<lambda>r. t3_instanceId r = i) report))))"

section \<open>The weighted coverage formula of the specification\<close>

text \<open>
  The score of an instance, read off the report rows: the \<^verbatim>\<open>total_coverage\<close> of the
  first row of that instance (all rows of an instance carry the same value).
\<close>

definition instance_score :: "t3_row list \<Rightarrow> string \<Rightarrow> int option" where
  "instance_score findings i =
     (case find (\<lambda>r. t3_instanceId r = i) findings of
        None \<Rightarrow> None
      | Some r \<Rightarrow> total_coverage r)"

text \<open>
  The specification's formula
  \<^verbatim>\<open>((assets_without_findings * 100) + sum(per-instance score)) / total_assets\<close>
  for an inventory of agent machines and the report rows of the instances with
  findings, with the arithmetic of SQL.
\<close>

definition spec_weighted_coverage :: "machine_row list \<Rightarrow> t3_row list \<Rightarrow> int option" where
  "spec_weighted_coverage inventory findings =
     (let total_assets = sql_count_distinct (map tag_instanceId inventory);
          with_findings = remdups (map t3_instanceId findings)
      in sql_div
           (sql_add (Some ((total_assets - int (length with_findings)) * 100))
              (sql_sum (map (instance_score findings) with_findings)))
           (Some total_assets))"

section \<open>Auxiliary notions of the proofs\<close>

text \<open>
  The value of the grading \<^verbatim>\<open>CASE\<close> for an instance, as \<open>t3_of\<close> computes it from
  the window sums of the rows of that instance.
\<close>

definition coverage_of_instance :: "t2_row list \<Rightarrow> string \<Rightarrow> int option" where
  "coverage_of_instance rs i =
     total_coverage_case
       (over_instance (\<lambda>x. t2_critical x * t2_vulncount x) rs i)
       (over_instance (\<lambda>x. t2_high x * t2_vulncount x) rs i)
       (over_instance (\<lambda>x. t2_medium x * t2_vulncount x) rs i)
       (over_instance (\<lambda>x. t2_low x * t2_vulncount x) rs i)
       (over_instance (\<lambda>x. t2_info x * t2_vulncount x) rs i)"

text \<open>
  The account ids that the discovery can have issued, given the raw ids recorded in
  its three lists; the organization and tenant parts contain no colon.  The invariant
  of the discovery: the account ids issued so far are pairwise different and all of
  this form.
\<close>

definition aws_ids :: "string list \<Rightarrow> string set" where
  "aws_ids A = (\<lambda>x. ''aws:'' @ x) ` set A"

definition gcp_ids :: "string list \<Rightarrow> string set" where
  "gcp_ids G = {''gcp:'' @ org @ '':'' @ p | org p. CHR '':'' \<notin> set org \<and> p \<in> set G}"

definition az_ids :: "string list \<Rightarrow> string set" where
  "az_ids Z = {''az:'' @ tenant @ '':'' @ s | tenant s. CHR '':'' \<notin> set tenant \<and> s \<in> set Z}"

definition known_ids :: "discovery \<Rightarrow> string set" where
  "known_ids st = aws_ids (aws_accounts st) \<union> gcp_ids (gcp_accounts st) \<union> az_ids (azure_accounts st)"

definition discovery_inv :: "discovery \<Rightarrow> bool" where
  "discovery_inv st \<longleftrightarrow>
     distinct (map a_accountId (accounts st)) \<and> set (map a_accountId (accounts st)) \<subseteq> known_ids st"

text \<open>
  An account that the telemetry pass may append when it starts in state \<open>st\<close>: it is
  built from the raw id of a telemetry row of the right provider, and that raw id is
  not in the provider's list of \<open>st\<close>.
\<close>

definition lql_candidate :: "string \<Rightarrow> discovery \<Rightarrow> machine_account list \<Rightarrow> cloud_account \<Rightarrow> bool" where
  "lql_candidate lw st ms a \<longleftrightarrow>
     (\<exists>x. a = lql_data lw (''aws:'' @ x) ''AwsLql'' \<and> x \<notin> set (aws_accounts st) \<and>
          (\<exists>m\<in>set ms. ACCOUNTID m = Some x \<and> VMPROVIDER m = Some ''AWS'')) \<or>
     (\<exists>p. a = lql_data lw (''gcp::'' @ p) ''GcpLql'' \<and> p \<notin> set (gcp_accounts st) \<and>
          (\<exists>m\<in>set ms. PROJECTID m = Some p \<and> VMPROVIDER m = Some ''GCE'')) \<or>
     (\<exists>p. a = lql_data lw (''az::'' @ p) ''AzureLql'' \<and> p \<notin> set (azure_accounts st) \<and>
          (\<exists>m\<in>set ms. PROJECTID m = Some p \<and> VMPROVIDER m = Some ''Azure''))"

section \<open>Example inputs\<close>

text \<open>
  A compliance table with one account and one control of severity code 5 (critical)
  that has two violations among ten assessed resources.
\<close>

definition ex_compliance :: "compliance_row list" where
  "ex_compliance =
     [\<lparr> c_accountId = ''aws:1'', c_lwAccount = ''t'', c_reportType = ''AWS_CIS_S3'',
        recommendations =
          [\<lparr> REC_ID = Some ''r1'', STATUS = Some ''NonCompliant'', SEVERITY = Some 5,
             VIOLATIONS = Some [''v1'', ''v2''], ASSESSED_RESOURCE_COUNT = Some 10 \<rparr>] \<rparr>]"

text \<open>
  A client whose GCP call succeeds with one report row; the other two calls raise
  \<^verbatim>\<open>ApiError\<close>.
\<close>

definition ex_client :: compliance_client where
  "ex_client =
     \<lparr> get_latest_aws_report = (\<lambda>a t. None),
       get_latest_gcp_report =
         (\<lambda>org project t.
            Some [[(''reportType'', PStr t), (''organizationId'', PStr (fmt org)),
                   (''projectId'', PStr project)]]),
       get_latest_azure_report = (\<lambda>tenant sub t. None) \<rparr>"

text \<open>
  A compliance table with two controls: five violations among ten assessed resources,
  and twelve violations among ten.
\<close>

definition ex_controls :: "compliance_row list" where
  "ex_controls =
     [\<lparr> c_accountId = ''aws:1'', c_lwAccount = ''t'', c_reportType = ''AWS_CIS_S3'',
        recommendations =
          [\<lparr> REC_ID = Some ''r1'', STATUS = Some ''NonCompliant'', SEVERITY = Some 3,
             VIOLATIONS = Some (replicate 5 ''v''), ASSESSED_RESOURCE_COUNT = Some 10 \<rparr>,
           \<lparr> REC_ID = Some ''r2'', STATUS = Some ''NonCompliant'', SEVERITY = Some 3,
             VIOLATIONS = Some (replicate 12 ''v''), ASSESSED_RESOURCE_COUNT = Some 10 \<rparr>] \<rparr>]"

text \<open>
  A fleet of four agent machines in two accounts of one tenant; one instance of each
  account has one critical finding.
\<close>

definition ex_machines :: "machine_row list" where
  "ex_machines =
     [\<lparr> m_lwAccount = ''t'', m_accountId = ''aws:1'', tag_instanceId = Some ''i1'' \<rparr>,
      \<lparr> m_lwAccount = ''t'', m_accountId = ''aws:2'', tag_instanceId = Some ''i2'' \<rparr>,
      \<lparr> m_lwAccount = ''t'', m_accountId = ''aws:2'', tag_instanceId = Some ''i3'' \<rparr>,
      \<lparr> m_lwAccount = ''t'', m_accountId = ''aws:2'', tag_instanceId = Some ''i4'' \<rparr>]"

definition ex_vulns :: "vuln_row list" where
  "ex_vulns =
     [\<lparr> v_lwAccount = ''t'', v_accountId = ''aws:1'', v_instanceId = Some ''i1'',
        v_vulnId = Some ''cve1'', v_severity = Some ''Critical'' \<rparr>,
      \<lparr> v_lwAccount = ''t'', v_accountId = ''aws:2'', v_instanceId = Some ''i2'',
        v_vulnId = Some ''cve1'', v_severity = Some ''Critical'' \<rparr>]"

text \<open>
  Two accounts of one tenant that report the same instance id, each with one critical
  finding of that instance.
\<close>

definition ex_shared_machines :: "machine_row list" where
  "ex_shared_machines =
     [\<lparr> m_lwAccount = ''t'', m_accountId = ''aws:1'', tag_instanceId = Some ''i1'' \<rparr>,
      \<lparr> m_lwAccount = ''t'', m_accountId = ''aws:2'', tag_instanceId = Some ''i1'' \<rparr>]"

definition ex_shared_vulns :: "vuln_row list" where
  "ex_shared_vulns =
     [\<lparr> v_lwAccount = ''t'', v_accountId = ''aws:1'', v_instanceId = Some ''i1'',
        v_vulnId = Some ''cve1'', v_severity = Some ''Critical'' \<rparr>,
      \<lparr> v_lwAccount = ''t'', v_accountId = ''aws:2'', v_instanceId = Some ''i1'',
        v_vulnId = Some ''cve2'', v_severity = Some ''Critical'' \<rparr>]"

text \<open>
  Three report rows with differing key sets, and a column-type inference standing
  for the library's.
\<close>

definition ex_infer :: "pyval \<Rightarrow> column_type" where
  "ex_infer v = (case v of PInt _ \<Rightarrow> Inferred ''BIGINT'' | PFloat _ \<Rightarrow> Inferred ''FLOAT'' | _ \<Rightarrow> TEXT)"

definition ex_report :: "row list" where
  "ex_report =
     [[(''lwAccount'', PStr ''t''), (''a'', PInt 1)],
      [(''lwAccount'', PStr ''u''), (''a'', PInt 2), (''b'', PList [PInt 1]), (''c'', PInt 5)],
      [(''lwAccount'', PStr ''t''), (''d'', PStr ''x'')]]"

text \<open>
  Integrations of the three providers and telemetry rows: two of the telemetry rows
  name accounts that are integrated, one names an integrated subscription, two are new.
\<close>

definition ex_integrations :: "integration list" where
  "ex_integrations =
     [\<lparr> i_type = ''GcpCfg'', i_name = ''gcp-org'', i_isOrg = True, i_enabled = True, i_state_ok = True,
        i_projectErrors = [''p1'', ''p2''], i_data_id = ''123'', i_data_idType = ''ORGANIZATION'',
        i_roleArn = [], i_subscriptionErrors = [], i_tenantId = [] \<rparr>,
      \<lparr> i_type = ''AwsCfg'', i_name = ''aws'', i_isOrg = False, i_enabled = True, i_state_ok = True,
        i_projectErrors = [], i_data_id = [], i_data_idType = [],
        i_roleArn = ''arn:aws:iam::111122223333:role/lw'', i_subscriptionErrors = [], i_tenantId = [] \<rparr>,
      \<lparr> i_type = ''AzureCfg'', i_name = ''az'', i_isOrg = False, i_enabled = True, i_state_ok = True,
        i_projectErrors = [], i_data_id = [], i_data_idType = [],
        i_roleArn = [], i_subscriptionErrors = [''ab-1''], i_tenantId = ''tn'' \<rparr>]"

definition ex_machine_accounts :: "machine_account list" where
  "ex_machine_accounts =
     [\<lparr> ACCOUNTID = Some ''111122223333'', PROJECTID = None, VMPROVIDER = Some ''AWS'' \<rparr>,
      \<lparr> ACCOUNTID = Some ''999'', PROJECTID = None, VMPROVIDER = Some ''AWS'' \<rparr>,
      \<lparr> ACCOUNTID = None, PROJECTID = Some ''p1'', VMPROVIDER = Some ''GCE'' \<rparr>,
      \<lparr> ACCOUNTID = None, PROJECTID = Some ''p9'', VMPROVIDER = Some ''GCE'' \<rparr>,
      \<lparr> ACCOUNTID = None, PROJECTID = Some ''AB-1'', VMPROVIDER = Some ''Azure'' \<rparr>]"

text \<open>
  Two GCP integrations whose organization and project ids contain colons and
  concatenate to the same account id.
\<close>

definition ex_colon_integrations :: "integration list" where
  "ex_colon_integrations =
     [\<lparr> i_type = ''GcpCfg'', i_name = ''one'', i_isOrg = True, i_enabled = True, i_state_ok = True,
        i_projectErrors = [''b:c''], i_data_id = ''a'', i_data_idType = ''ORGANIZATION'',
        i_roleArn = [], i_subscriptionErrors = [], i_tenantId = [] \<rparr>,
      \<lparr> i_type = ''GcpCfg'', i_name = ''two'', i_isOrg = True, i_enabled = True, i_state_ok = True,
        i_projectErrors = [''c''], i_data_id = ''a:b'', i_data_idType = ''ORGANIZATION'',
        i_roleArn = [], i_subscriptionErrors = [], i_tenantId = [] \<rparr>]"

text \<open>
  An export collaborator that returns one row and, for the SQLite format, leaves a
  table holding that row.
\<close>

definition ex_export ::
    "DataHandlerTypes \<Rightarrow> filter_spec list \<Rightarrow> sql_table option \<Rightarrow> (row list \<times> sql_table option) option" where
  "ex_export kind fs db =
     Some ([[(''vulnId'', PStr ''cve1'')]],
           (case kind of
              SQLITE \<Rightarrow> Some \<lparr> columns = [(''vulnId'', TEXT)], rows = [[(''vulnId'', PStr ''cve1'')]] \<rparr>
            | DICT \<Rightarrow> db))"

section \<open>Verified properties\<close>

subsection \<open>Compliance: severity columns of the aggregating queries\<close>

text \<open>
  C1.  The claim: in the rows of \<^verbatim>\<open>account_coverage\<close>, \<^verbatim>\<open>lwaccount_summary\<close> and
  \<^verbatim>\<open>total_summary\<close> the column \<^verbatim>\<open>critical\<close> sums the violation counts of the
  controls with severity code 5 and the column \<^verbatim>\<open>info\<close> those with code 1, following
  the mapping 1 = info, ..., 5 = critical.  The templates do the opposite: their outer
  select sums code 1 into \<^verbatim>\<open>critical\<close> and code 5 into \<^verbatim>\<open>info\<close>, while their own
  inner select names code 5 \<^verbatim>\<open>critical\<close>.  On the example table the one control is
  named critical, yet all three queries report no critical violation and two of
  severity info.
\<close>

theorem compliance_severity_columns_swapped:
  "map cr_severity (control_rows ex_compliance) = [Some ''critical''] \<and>
   map (\<lambda>r. (cc_critical r, cc_info r)) (ComplianceQueries_account_coverage ex_compliance)
     = [(Some 0, Some 2)] \<and>
   map (\<lambda>r. (cc_critical r, cc_info r)) (ComplianceQueries_lwaccount_summary ex_compliance)
     = [(Some 0, Some 2)] \<and>
   map (\<lambda>r. (cc_critical r, cc_info r)) (ComplianceQueries_total_summary ex_compliance)
     = [(Some 0, Some 2)]"
  by code_simp

subsection \<open>Compliance: the percent column and the report filter\<close>

lemma cast_integer_quotient:
  assumes "0 < a" "v \<le> a"
  shows "cast_integer (100 - real_of_int v * 100 / real_of_int a) = (100 * (a - v)) div a"
proof -
  have "100 - real_of_int v * 100 / real_of_int a = real_of_int (100 * (a - v)) / real_of_int a"
    using assms by (simp add: field_simps)
  moreover have "0 \<le> real_of_int (100 * (a - v)) / real_of_int a"
    using assms by simp
  ultimately show ?thesis
    by (simp add: cast_integer_def floor_divide_of_int_eq del: of_int_mult of_int_diff)
qed

lemma percent_case_int:
  "percent_case (json_array_length (Some xs)) (Some a) =
     (if int (length xs) > a then Some 100
      else if a = 0 then None
      else Some ((100 * (a - int (length xs))) div a))"
proof (cases "int (length xs) > a \<or> a = 0")
  case True
  then show ?thesis
    by (auto simp add: percent_case_def json_array_length_def)
next
  case False
  then have "0 < a" "int (length xs) \<le> a"
    by linarith+
  from cast_integer_quotient [OF this] False show ?thesis
    by (simp add: percent_case_def json_array_length_def)
qed

lemma percent_of_control_rows:
  "map cr_percent (control_rows tbl) =
   map (\<lambda>r. percent_case (cr_violation_count r) (cr_assessed_resource_count r)) (control_rows tbl)"
  by (induction tbl) (simp_all add: control_rows_def control_row_def)

lemma report_has_no_clamped_row:
  assumes "r \<in> set (ComplianceQueries_report tbl)"
  shows "\<not> sql_gt (cr_violation_count r) (cr_assessed_resource_count r)"
proof -
  from assms have a: "report_where r" and b: "r \<in> set (control_rows tbl)"
    by (simp_all add: ComplianceQueries_report_def)
  from b have "cr_percent r = percent_case (cr_violation_count r) (cr_assessed_resource_count r)"
    by (auto simp add: control_rows_def control_row_def)
  with a show ?thesis
    by (auto simp add: report_where_def percent_case_def sql_gt_def split: option.splits if_splits)
qed

lemma report_where_iff:
  "report_where r \<longleftrightarrow>
     (\<exists>p. cr_percent r = Some p \<and> p < 100) \<and> (\<exists>s. cr_status r = Some s \<and> s \<noteq> ''Compliant'')"
  by (cases "cr_percent r"; cases "cr_status r") (simp_all add: report_where_def)

lemma compliance_report_example:
  "map (\<lambda>r. (cr_rec_id r, cr_percent r)) (control_rows ex_controls)
     = [(Some ''r1'', Some 50), (Some ''r2'', Some 100)] \<and>
   map (\<lambda>r. (cr_rec_id r, cr_percent r)) (ComplianceQueries_report ex_controls)
     = [(Some ''r1'', Some 50)]"
  by code_simp

text \<open>
  C6.  Every exploded control row carries the value of the \<^verbatim>\<open>percent\<close> \<^verbatim>\<open>CASE\<close> of
  its violation count and assessed-resource count: 100 when the violations exceed the
  assessed resources, otherwise \<^verbatim>\<open>100 - violations*100/assessed\<close> truncated, which for
  a violation array of length \<open>n\<close> and \<open>a\<close> assessed resources is the integer quotient of
  \<open>100 * (a - n)\<close> by \<open>a\<close> (and \<^verbatim>\<open>NULL\<close> when \<open>a\<close> and \<open>n\<close> are both 0).  Five
  violations of ten give 50, twelve of ten give 100.  The report query returns, up to
  its ordering, exactly the control rows with \<^verbatim>\<open>percent < 100\<close> and a status other than
  \<^verbatim>\<open>'Compliant'\<close>; it is ordered by account, report type and control id, and no row
  whose violations exceed its assessed resources is in it.
\<close>

theorem compliance_report_percent:
  "map cr_percent (control_rows tbl) =
     map (\<lambda>r. percent_case (cr_violation_count r) (cr_assessed_resource_count r)) (control_rows tbl) \<and>
   percent_case (json_array_length (Some xs)) (Some a) =
     (if int (length xs) > a then Some 100
      else if a = 0 then None
      else Some ((100 * (a - int (length xs))) div a)) \<and>
   percent_case (Some 5) (Some 10) = Some 50 \<and>
   percent_case (Some 12) (Some 10) = Some 100 \<and>
   mset (ComplianceQueries_report tbl) =
     mset (filter (\<lambda>r. (\<exists>p. cr_percent r = Some p \<and> p < 100) \<and>
                        (\<exists>s. cr_status r = Some s \<and> s \<noteq> ''Compliant''))
             (control_rows tbl)) \<and>
   sorted (map (\<lambda>r. (cr_accountId r, cr_reportType r, cr_rec_id r)) (ComplianceQueries_report tbl)) \<and>
   filter (\<lambda>r. sql_gt (cr_violation_count r) (cr_assessed_resource_count r))
     (ComplianceQueries_report tbl) = []"
proof -
  have "percent_case (Some 5) (Some 10) = Some 50" "percent_case (Some 12) (Some 10) = Some 100"
    by (simp_all add: percent_case_def cast_integer_def)
  moreover have "mset (ComplianceQueries_report tbl) =
     mset (filter (\<lambda>r. (\<exists>p. cr_percent r = Some p \<and> p < 100) \<and>
                        (\<exists>s. cr_status r = Some s \<and> s \<noteq> ''Compliant''))
             (control_rows tbl))"
    by (simp add: ComplianceQueries_report_def report_where_iff [abs_def])
  moreover have "sorted (map (\<lambda>r. (cr_accountId r, cr_reportType r, cr_rec_id r)) (ComplianceQueries_report tbl))"
    by (simp add: ComplianceQueries_report_def)
  moreover have "filter (\<lambda>r. sql_gt (cr_violation_count r) (cr_assessed_resource_count r))
     (ComplianceQueries_report tbl) = []"
    using report_has_no_clamped_row by (simp add: filter_empty_conv)
  ultimately show ?thesis
    using percent_of_control_rows percent_case_int by blast
qed

subsection \<open>Compliance report of a GCP project without organization\<close>

lemma gcp_key_always_fetches:
  assumes "split_on CHR '':'' key = [''gcp'', org, project]"
  shows "fst (get_compliance_report client lw key ac gc zc ignore_errors organization) =
           Get_latest_gcp_report (Some org) project gc
           # (case get_latest_gcp_report client (Some org) project gc of
                None \<Rightarrow> [Logging_error]
              | Some _ \<Rightarrow> [])"
  using assms
  by (simp add: get_compliance_report_def take_report_def Let_def
      split: option.splits list.splits sum.splits)

text \<open>
  C8.  The claim: for a GCP key whose organization segment is empty and with no
  organization override, \<^verbatim>\<open>get_compliance_report\<close> skips the project with a warning
  when \<^verbatim>\<open>ignore_errors\<close> is set and raises otherwise.  The code tests
  \<^verbatim>\<open>orgId is None\<close> on a part of \<^verbatim>\<open>split(":")\<close>, which is never \<^verbatim>\<open>None\<close>: for the
  key \<^verbatim>\<open>gcp::p1\<close> it calls the client with the empty organization id and returns the
  fetched row, with either setting of \<^verbatim>\<open>ignore_errors\<close>; nothing is logged and nothing
  is raised.
\<close>

theorem gcp_report_fetched_without_organization:
  "get_compliance_report ex_client ''t'' ''gcp::p1'' ''AWS_CIS_S3'' ''GCP_CIS12'' ''AZURE_CIS_131'' True None
     = ([Get_latest_gcp_report (Some []) ''p1'' ''GCP_CIS12''],
        Inr [[(''reportType'', PStr ''GCP_CIS12''), (''accountId'', PStr ''gcp::p1''),
              (''lwAccount'', PStr ''t'')]]) \<and>
   get_compliance_report ex_client ''t'' ''gcp::p1'' ''AWS_CIS_S3'' ''GCP_CIS12'' ''AZURE_CIS_131'' False None
     = ([Get_latest_gcp_report (Some []) ''p1'' ''GCP_CIS12''],
        Inr [[(''reportType'', PStr ''GCP_CIS12''), (''accountId'', PStr ''gcp::p1''),
              (''lwAccount'', PStr ''t'')]])"
  by code_simp

subsection \<open>Vulnerabilities: the score of an instance\<close>

lemma total_coverage_of_report:
  "map total_coverage (VulnerabilityQueries_report machines tbl) =
   map (\<lambda>r. total_coverage_case (total_critical r) (total_high r) (total_medium r)
              (total_low r) (total_info r))
     (VulnerabilityQueries_report machines tbl)"
  by (simp add: VulnerabilityQueries_report_def t3_of_def Let_def)

lemma first_by_map: "first_by k (map f xs) = map f (first_by (\<lambda>x. k (f x)) xs)"
proof (induction "\<lambda>x. k (f x)" xs rule: first_by.induct)
  case 1
  show ?case by simp
next
  case (2 x xs)
  then show ?case
    by (simp add: filter_map comp_def)
qed

lemma first_by_subset: "set (first_by k xs) \<subseteq> set xs"
proof (induction k xs rule: first_by.induct)
  case (1 k)
  show ?case by simp
next
  case (2 k x xs)
  then show ?case
    by auto
qed

lemma t2_scan_flags:
  "\<forall>r\<in>set (t2_scan e hs).
     t2_critical r = severity_is ''Critical'' (t2_severity r) \<and>
     t2_high r = severity_is ''High'' (t2_severity r) \<and>
     t2_medium r = severity_is ''Medium'' (t2_severity r) \<and>
     t2_low r = severity_is ''Low'' (t2_severity r) \<and>
     t2_info r = severity_is ''Info'' (t2_severity r)"
  by (induction e hs rule: t2_scan.induct) simp_all

lemma t2_scan_Cons_vuln:
  "\<exists>r0. t2_scan earlier ((j, x) # rest) = r0 # t2_scan ((j, x) # earlier) rest \<and>
        t2_instanceId r0 = j \<and> t2_vulnId r0 = v_vulnId x \<and>
        t2_vulncount r0 =
          (if (j, v_vulnId x) \<in> set (map (\<lambda>p. (fst p, v_vulnId (snd p))) earlier) then 0 else 1)"
  by (simp add: row_number_is_1_def split_def)

lemma vulncount_sum:
  "sum_list (map (\<lambda>r. g r * t2_vulncount r) (filter (\<lambda>r. t2_instanceId r = i) (t2_scan e hs))) =
   sum_list (map g (first_by t2_vulnId
     (filter (\<lambda>r. t2_instanceId r = i \<and>
                  (i, t2_vulnId r) \<notin> set (map (\<lambda>p. (fst p, v_vulnId (snd p))) e))
        (t2_scan e hs))))"
proof (induction hs arbitrary: e)
  case Nil
  show ?case by simp
next
  case (Cons p rest)
  obtain j x where p: "p = (j, x)"
    by (cases p)
  let ?K = "\<lambda>e. set (map (\<lambda>p. (fst p, v_vulnId (snd p))) e)"
  let ?rest = "t2_scan ((j, x) # e) rest"
  have IH: "sum_list (map (\<lambda>r. g r * t2_vulncount r) (filter (\<lambda>r. t2_instanceId r = i) ?rest)) =
      sum_list (map g (first_by t2_vulnId
        (filter (\<lambda>r. t2_instanceId r = i \<and> (i, t2_vulnId r) \<notin> insert (j, v_vulnId x) (?K e)) ?rest)))"
    using Cons.IH [of "(j, x) # e"] by simp
  from t2_scan_Cons_vuln [of e j x rest] obtain r0 where
    scan: "t2_scan e ((j, x) # rest) = r0 # ?rest"
    and r0: "t2_instanceId r0 = j" "t2_vulnId r0 = v_vulnId x"
      "t2_vulncount r0 = (if (j, v_vulnId x) \<in> ?K e then 0 else 1)"
    by blast
  show ?case
  proof (cases "j = i")
    case False
    have f: "filter (\<lambda>r. t2_instanceId r = i \<and> (i, t2_vulnId r) \<notin> insert (j, v_vulnId x) (?K e)) ?rest =
        filter (\<lambda>r. t2_instanceId r = i \<and> (i, t2_vulnId r) \<notin> ?K e) ?rest"
      using False by (intro filter_cong refl) auto
    have a: "filter (\<lambda>r. t2_instanceId r = i) (r0 # ?rest) = filter (\<lambda>r. t2_instanceId r = i) ?rest"
      using False r0(1) by simp
    have b: "filter (\<lambda>r. t2_instanceId r = i \<and> (i, t2_vulnId r) \<notin> ?K e) (r0 # ?rest) =
        filter (\<lambda>r. t2_instanceId r = i \<and> (i, t2_vulnId r) \<notin> ?K e) ?rest"
      using False r0(1) by simp
    show ?thesis
      unfolding p scan a b using IH by (simp only: f)
  next
    case True
    show ?thesis
    proof (cases "(i, v_vulnId x) \<in> ?K e")
      case in_K: True
      then have ins: "insert (j, v_vulnId x) (?K e) = ?K e"
        using True by auto
      have "sum_list (map (\<lambda>r. g r * t2_vulncount r) (filter (\<lambda>r. t2_instanceId r = i) (r0 # ?rest))) =
          sum_list (map (\<lambda>r. g r * t2_vulncount r) (filter (\<lambda>r. t2_instanceId r = i) ?rest))"
        using True r0 in_K by simp
      moreover have "filter (\<lambda>r. t2_instanceId r = i \<and> (i, t2_vulnId r) \<notin> ?K e) (r0 # ?rest) =
          filter (\<lambda>r. t2_instanceId r = i \<and> (i, t2_vulnId r) \<notin> ?K e) ?rest"
        using True r0 in_K by simp
      ultimately show ?thesis
        unfolding p scan using IH by (simp only: ins)
    next
      case not_K: False
      have l: "sum_list (map (\<lambda>r. g r * t2_vulncount r) (filter (\<lambda>r. t2_instanceId r = i) (r0 # ?rest))) =
          g r0 + sum_list (map (\<lambda>r. g r * t2_vulncount r) (filter (\<lambda>r. t2_instanceId r = i) ?rest))"
        using True r0 not_K by simp
      have f: "filter (\<lambda>y. t2_vulnId y \<noteq> t2_vulnId r0)
                 (filter (\<lambda>r. t2_instanceId r = i \<and> (i, t2_vulnId r) \<notin> ?K e) ?rest) =
          filter (\<lambda>r. t2_instanceId r = i \<and> (i, t2_vulnId r) \<notin> insert (j, v_vulnId x) (?K e)) ?rest"
        unfolding filter_filter using True r0(2) by (intro filter_cong refl) auto
      have r: "first_by t2_vulnId (filter (\<lambda>r. t2_instanceId r = i \<and> (i, t2_vulnId r) \<notin> ?K e) (r0 # ?rest)) =
          r0 # first_by t2_vulnId
                 (filter (\<lambda>r. t2_instanceId r = i \<and> (i, t2_vulnId r) \<notin> insert (j, v_vulnId x) (?K e)) ?rest)"
        using True r0 not_K f by simp
      show ?thesis
        unfolding p scan l r using IH by (simp only: list.map sum_list.Cons)
    qed
  qed
qed

lemma sum_list_indicator:
  "sum_list (map (\<lambda>x. if P x then 1 else 0) xs) = int (length (filter P xs))"
  by (induction xs) simp_all

lemma over_instance_deduplicated:
  assumes g: "\<forall>r\<in>set (t2_scan [] hs). g r = severity_is name (t2_severity r)"
  shows "over_instance (\<lambda>x. g x * t2_vulncount x) (t2_scan [] hs) i =
         deduplicated_count (map (t3_of (t2_scan [] hs)) (t2_scan [] hs)) i name"
proof -
  let ?rows = "t2_scan [] hs"
  let ?fb = "first_by t2_vulnId (filter (\<lambda>r. t2_instanceId r = i) ?rows)"
  have "over_instance (\<lambda>x. g x * t2_vulncount x) ?rows i = sum_list (map g ?fb)"
    unfolding over_instance_def using vulncount_sum [of g i "[]" hs] by simp
  also have "map g ?fb = map (\<lambda>r. if t2_severity r = Some name then 1 else 0) ?fb"
  proof (rule map_cong [OF refl])
    fix r assume "r \<in> set ?fb"
    with first_by_subset [of t2_vulnId "filter (\<lambda>r. t2_instanceId r = i) ?rows"]
    have "r \<in> set ?rows"
      by auto
    with g show "g r = (if t2_severity r = Some name then 1 else 0)"
      by (simp add: severity_is_def)
  qed
  also have "sum_list \<dots> = int (length (filter (\<lambda>r. t2_severity r = Some name) ?fb))"
    by (rule sum_list_indicator)
  also have "\<dots> = deduplicated_count (map (t3_of ?rows) ?rows) i name"
    unfolding deduplicated_count_def
    by (simp add: filter_map comp_def first_by_map t3_of_def Let_def)
  finally show ?thesis .
qed

lemma buckets_of_report:
  "map (\<lambda>r. (total_critical r, total_high r, total_medium r, total_low r, total_info r))
     (VulnerabilityQueries_report machines tbl) =
   map (\<lambda>r. (deduplicated_count (VulnerabilityQueries_report machines tbl) (t3_instanceId r) ''Critical'',
              deduplicated_count (VulnerabilityQueries_report machines tbl) (t3_instanceId r) ''High'',
              deduplicated_count (VulnerabilityQueries_report machines tbl) (t3_instanceId r) ''Medium'',
              deduplicated_count (VulnerabilityQueries_report machines tbl) (t3_instanceId r) ''Low'',
              deduplicated_count (VulnerabilityQueries_report machines tbl) (t3_instanceId r) ''Info''))
     (VulnerabilityQueries_report machines tbl)"
proof -
  define hs where "hs = has_agent_rows machines tbl"
  have rep: "VulnerabilityQueries_report machines tbl = map (t3_of (t2_scan [] hs)) (t2_scan [] hs)"
    by (simp add: VulnerabilityQueries_report_def t2_def hs_def Let_def)
  note fl = t2_scan_flags [of "[]" hs]
  have c: "over_instance (\<lambda>x. t2_critical x * t2_vulncount x) (t2_scan [] hs) i =
      deduplicated_count (map (t3_of (t2_scan [] hs)) (t2_scan [] hs)) i ''Critical''" for i
    by (rule over_instance_deduplicated) (use fl in blast)
  have h: "over_instance (\<lambda>x. t2_high x * t2_vulncount x) (t2_scan [] hs) i =
      deduplicated_count (map (t3_of (t2_scan [] hs)) (t2_scan [] hs)) i ''High''" for i
    by (rule over_instance_deduplicated) (use fl in blast)
  have m: "over_instance (\<lambda>x. t2_medium x * t2_vulncount x) (t2_scan [] hs) i =
      deduplicated_count (map (t3_of (t2_scan [] hs)) (t2_scan [] hs)) i ''Medium''" for i
    by (rule over_instance_deduplicated) (use fl in blast)
  have l: "over_instance (\<lambda>x. t2_low x * t2_vulncount x) (t2_scan [] hs) i =
      deduplicated_count (map (t3_of (t2_scan [] hs)) (t2_scan [] hs)) i ''Low''" for i
    by (rule over_instance_deduplicated) (use fl in blast)
  have n: "over_instance (\<lambda>x. t2_info x * t2_vulncount x) (t2_scan [] hs) i =
      deduplicated_count (map (t3_of (t2_scan [] hs)) (t2_scan [] hs)) i ''Info''" for i
    by (rule over_instance_deduplicated) (use fl in blast)
  have f: "total_critical (t3_of rs r) = over_instance (\<lambda>x. t2_critical x * t2_vulncount x) rs (t2_instanceId r)"
    "total_high (t3_of rs r) = over_instance (\<lambda>x. t2_high x * t2_vulncount x) rs (t2_instanceId r)"
    "total_medium (t3_of rs r) = over_instance (\<lambda>x. t2_medium x * t2_vulncount x) rs (t2_instanceId r)"
    "total_low (t3_of rs r) = over_instance (\<lambda>x. t2_low x * t2_vulncount x) rs (t2_instanceId r)"
    "total_info (t3_of rs r) = over_instance (\<lambda>x. t2_info x * t2_vulncount x) rs (t2_instanceId r)"
    "t3_instanceId (t3_of rs r) = t2_instanceId r" for rs r
    by (simp_all add: t3_of_def Let_def)
  show ?thesis
    unfolding rep by (simp only: map_map comp_def f c h m l n)
qed

text \<open>
  C4.  In the report query every row's \<^verbatim>\<open>total_coverage\<close> is the step function of
  the row's five bucket counts, and the bucket counts of a row are the deduplicated
  counts of its instance: every vulnerability id of the instance is counted once, in
  the bucket of the severity of its first row.  The conditions are tried in the order critical, high,
  medium, low, info: a positive critical count alone decides, else a positive high
  count alone, and so on.  All counts zero give 100; a critical count of 6 gives 5
  whatever the other counts are.
\<close>

theorem vulnerability_report_step_function:
  "map total_coverage (VulnerabilityQueries_report machines tbl) =
     map (\<lambda>r. total_coverage_case (total_critical r) (total_high r) (total_medium r)
                (total_low r) (total_info r))
       (VulnerabilityQueries_report machines tbl) \<and>
   map (\<lambda>r. (total_critical r, total_high r, total_medium r, total_low r, total_info r))
       (VulnerabilityQueries_report machines tbl) =
     map (\<lambda>r. (deduplicated_count (VulnerabilityQueries_report machines tbl) (t3_instanceId r) ''Critical'',
                deduplicated_count (VulnerabilityQueries_report machines tbl) (t3_instanceId r) ''High'',
                deduplicated_count (VulnerabilityQueries_report machines tbl) (t3_instanceId r) ''Medium'',
                deduplicated_count (VulnerabilityQueries_report machines tbl) (t3_instanceId r) ''Low'',
                deduplicated_count (VulnerabilityQueries_report machines tbl) (t3_instanceId r) ''Info''))
       (VulnerabilityQueries_report machines tbl) \<and>
   total_coverage_case c h m l n =
     (if c > 0 then total_coverage_case c 0 0 0 0
      else if h > 0 then total_coverage_case 0 h 0 0 0
      else if m > 0 then total_coverage_case 0 0 m 0 0
      else if l > 0 then total_coverage_case 0 0 0 l 0
      else total_coverage_case 0 0 0 0 n) \<and>
   total_coverage_case 0 0 0 0 0 = Some 100 \<and>
   total_coverage_case 6 h m l n = Some 5"
proof (intro conjI)
  show "map total_coverage (VulnerabilityQueries_report machines tbl) =
     map (\<lambda>r. total_coverage_case (total_critical r) (total_high r) (total_medium r)
                (total_low r) (total_info r))
       (VulnerabilityQueries_report machines tbl)"
    by (rule total_coverage_of_report)
  show "map (\<lambda>r. (total_critical r, total_high r, total_medium r, total_low r, total_info r))
       (VulnerabilityQueries_report machines tbl) =
     map (\<lambda>r. (deduplicated_count (VulnerabilityQueries_report machines tbl) (t3_instanceId r) ''Critical'',
                deduplicated_count (VulnerabilityQueries_report machines tbl) (t3_instanceId r) ''High'',
                deduplicated_count (VulnerabilityQueries_report machines tbl) (t3_instanceId r) ''Medium'',
                deduplicated_count (VulnerabilityQueries_report machines tbl) (t3_instanceId r) ''Low'',
                deduplicated_count (VulnerabilityQueries_report machines tbl) (t3_instanceId r) ''Info''))
       (VulnerabilityQueries_report machines tbl)"
    by (rule buckets_of_report)
qed (simp_all add: total_coverage_case_def)

subsection \<open>Vulnerabilities: the summaries average the accounts\<close>

lemma sql_cast_avg_Some:
  "sql_cast_avg (map Some (c # cs)) = Some (trunc_div (sum_list (c # cs)) (int (length (c # cs))))"
proof -
  have "non_null (map Some xs) = xs" for xs :: "int list"
    by (induction xs) (simp_all add: non_null_def)
  from this [of "c # cs"] show ?thesis
    unfolding sql_cast_avg_def by simp
qed

lemma total_summary_coverage:
  "map s_total_coverage (VulnerabilityQueries_total_summary ms tbl) =
     [sql_cast_avg (map ac_total_coverage (VulnerabilityQueries_account_coverage ms tbl))]"
  by (simp add: VulnerabilityQueries_total_summary_def summary_of_def)

lemma lwaccount_summary_coverage:
  "map (\<lambda>r. (s_lwAccount r, s_total_coverage r)) (VulnerabilityQueries_lwaccount_summary ms tbl) =
     map (\<lambda>lw. (lw, sql_cast_avg (map ac_total_coverage
                   (filter (\<lambda>r. ac_lwAccount r = lw) (VulnerabilityQueries_account_coverage ms tbl)))))
       (remdups (map ac_lwAccount (VulnerabilityQueries_account_coverage ms tbl)))"
  by (simp add: VulnerabilityQueries_lwaccount_summary_def summary_of_def Let_def)

text \<open>
  C2, as stated, fails.  On the example fleet the two accounts score 9 (one asset, in
  violation) and 69 (three assets, one in violation); \<^verbatim>\<open>total_summary\<close> and
  \<^verbatim>\<open>lwaccount_summary\<close> return 39, the truncated mean of 9 and 69, whereas the
  weighted formula over the inventory of the fleet, and of the tenant, gives
  \<open>(2 * 100 + 9 + 9) / 4 = 54\<close>.
\<close>

theorem summary_coverage_not_fleet_weighted:
  "map ac_total_coverage (VulnerabilityQueries_account_coverage ex_machines ex_vulns) = [Some 9, Some 69] \<and>
   map s_total_coverage (VulnerabilityQueries_total_summary ex_machines ex_vulns) = [Some 39] \<and>
   map s_total_coverage (VulnerabilityQueries_lwaccount_summary ex_machines ex_vulns) = [Some 39] \<and>
   spec_weighted_coverage ex_machines (VulnerabilityQueries_report ex_machines ex_vulns) = Some 54 \<and>
   spec_weighted_coverage (filter (\<lambda>m. m_lwAccount m = ''t'') ex_machines)
     (filter (\<lambda>r. t3_lwAccount r = ''t'') (VulnerabilityQueries_report ex_machines ex_vulns)) = Some 54 \<and>
   map s_total_coverage (VulnerabilityQueries_total_summary ex_machines ex_vulns)
     \<noteq> [spec_weighted_coverage ex_machines (VulnerabilityQueries_report ex_machines ex_vulns)]"
  by code_simp

text \<open>
  C2, amended.  The \<^verbatim>\<open>total_coverage\<close> of \<^verbatim>\<open>total_summary\<close> is
  \<^verbatim>\<open>CAST(AVG(total_coverage) AS INTEGER)\<close> over the rows of the account query, and that
  of \<^verbatim>\<open>lwaccount_summary\<close> the same over the account rows of each tenant: the mean of
  the per-account scores, truncated, every account with findings counting once whatever
  its inventory.  For scores \<open>c # cs\<close> none of which is \<^verbatim>\<open>NULL\<close> it is
  the truncated quotient of their sum by their number.
\<close>

theorem summary_coverage_is_mean_of_accounts:
  "map s_total_coverage (VulnerabilityQueries_total_summary ms tbl) =
     [sql_cast_avg (map ac_total_coverage (VulnerabilityQueries_account_coverage ms tbl))] \<and>
   map (\<lambda>r. (s_lwAccount r, s_total_coverage r)) (VulnerabilityQueries_lwaccount_summary ms tbl) =
     map (\<lambda>lw. (lw, sql_cast_avg (map ac_total_coverage
                   (filter (\<lambda>r. ac_lwAccount r = lw) (VulnerabilityQueries_account_coverage ms tbl)))))
       (remdups (map ac_lwAccount (VulnerabilityQueries_account_coverage ms tbl))) \<and>
   sql_cast_avg (map Some (c # cs)) = Some (trunc_div (sum_list (c # cs)) (int (length (c # cs))))"
  using total_summary_coverage lwaccount_summary_coverage sql_cast_avg_Some by blast

subsection \<open>Vulnerabilities: the coverage of an account\<close>


lemma t2_scan_instanceId: "map t2_instanceId (t2_scan e hs) = map fst hs"
  by (induction e hs rule: t2_scan.induct) simp_all

lemma finite_group_instances: "finite {i. \<exists>x. (i, x) \<in> set hs \<and> G x}"
proof (rule finite_subset)
  show "{i. \<exists>x. (i, x) \<in> set hs \<and> G x} \<subseteq> fst ` set hs"
    by force
qed simp

lemma t2_scan_Cons:
  "\<exists>r0. t2_scan earlier ((i, x) # rest) = r0 # t2_scan ((i, x) # earlier) rest \<and>
        t2_instanceId r0 = i \<and>
        ((t2_lwAccount r0, t2_accountId r0) = k) = ((v_lwAccount x, v_accountId x) = k) \<and>
        t2_instcount r0 = (if i \<in> set (map fst earlier) then 0 else 1)"
  by (simp add: row_number_is_1_def)

lemma instcount_sum:
  fixes w :: "string \<Rightarrow> int"
  assumes "\<forall>p\<in>set hs. \<forall>q\<in>set hs. fst p = fst q \<longrightarrow>
             ((v_lwAccount (snd p), v_accountId (snd p)) = k) = ((v_lwAccount (snd q), v_accountId (snd q)) = k)"
  shows "sum_list (map (\<lambda>r. t2_instcount r * w (t2_instanceId r))
           (filter (\<lambda>r. (t2_lwAccount r, t2_accountId r) = k) (t2_scan e hs)))
         = sum w ({i. \<exists>x. (i, x) \<in> set hs \<and> (v_lwAccount x, v_accountId x) = k} - set (map fst e))"
  using assms
proof (induction hs arbitrary: e)
  case Nil
  then show ?case by simp
next
  case (Cons p rest)
  obtain i x where p: "p = (i, x)"
    by (cases p)
  let ?G = "\<lambda>x. (v_lwAccount x, v_accountId x) = k"
  let ?S = "{j. \<exists>y. (j, y) \<in> set rest \<and> ?G y}"
  let ?E = "set (map fst e)"
  let ?f = "\<lambda>r. t2_instcount r * w (t2_instanceId r)"
  let ?in = "\<lambda>r. (t2_lwAccount r, t2_accountId r) = k"
  have fin: "finite ?S"
    by (rule finite_group_instances)
  have "\<forall>p\<in>set rest. \<forall>q\<in>set rest. fst p = fst q \<longrightarrow> ?G (snd p) = ?G (snd q)"
  proof (intro ballI impI)
    fix a b
    assume "a \<in> set rest" "b \<in> set rest" and ab: "fst a = fst b"
    then have "a \<in> set (p # rest)" "b \<in> set (p # rest)"
      by simp_all
    with Cons.prems ab show "?G (snd a) = ?G (snd b)"
      by blast
  qed
  then have "sum_list (map ?f (filter ?in (t2_scan ((i, x) # e) rest))) = sum w (?S - set (map fst ((i, x) # e)))"
    by (rule Cons.IH)
  then have IH: "sum_list (map ?f (filter ?in (t2_scan ((i, x) # e) rest))) = sum w (?S - insert i ?E)"
    by simp
  from t2_scan_Cons [of e i x rest k] obtain r0 where scan: "t2_scan e ((i, x) # rest) = r0 # t2_scan ((i, x) # e) rest"
    and r0: "t2_instanceId r0 = i" "?in r0 = ?G x" "t2_instcount r0 = (if i \<in> ?E then 0 else 1)"
    by blast
  have lhs: "sum_list (map ?f (filter ?in (t2_scan e (p # rest)))) =
      (if ?G x then (if i \<in> ?E then 0 else w i) else 0) + sum w (?S - insert i ?E)"
    unfolding p scan using r0 IH by simp
  have S': "{j. \<exists>y. (j, y) \<in> set (p # rest) \<and> ?G y} = (if ?G x then insert i ?S else ?S)"
    unfolding p by auto
  have rhs: "sum w ((if ?G x then insert i ?S else ?S) - ?E) =
      (if ?G x then (if i \<in> ?E then 0 else w i) else 0) + sum w (?S - insert i ?E)"
  proof (cases "?G x")
    case True
    show ?thesis
    proof (cases "i \<in> ?E")
      case True
      then have eq: "insert i ?S - ?E = ?S - insert i ?E"
        by auto
      have "sum w (insert i ?S - ?E) = 0 + sum w (?S - insert i ?E)"
        unfolding eq by simp
      with \<open>?G x\<close> True show ?thesis
        by (simp only: if_True simp_thms)
    next
      case False
      then have "insert i ?S - ?E = insert i (?S - insert i ?E)"
        by auto
      moreover have "i \<notin> ?S - insert i ?E" "finite (?S - insert i ?E)"
        using fin by simp_all
      ultimately have "sum w (insert i ?S - ?E) = w i + sum w (?S - insert i ?E)"
        by simp
      with \<open>?G x\<close> False show ?thesis
        by simp
    qed
  next
    case False
    have "i \<notin> ?S"
    proof
      assume "i \<in> ?S"
      then obtain y where y: "(i, y) \<in> set rest" "?G y"
        by blast
      have "(i, x) \<in> set (p # rest)" "(i, y) \<in> set (p # rest)" "fst (i, x) = fst (i, y)"
        using p y(1) by simp_all
      with Cons.prems have "?G (snd (i, x)) = ?G (snd (i, y))"
        by blast
      with False y(2) show False
        by simp
    qed
    then have "?S - insert i ?E = ?S - ?E"
      by auto
    with False show ?thesis
      by simp
  qed
  show ?case
    unfolding lhs S' rhs ..
qed

lemma non_null_Cons:
  "non_null (y # ys) = (case y of None \<Rightarrow> non_null ys | Some v \<Rightarrow> v # non_null ys)"
  by (cases y) (simp_all add: non_null_def)

lemma non_null_Nil: "non_null [] = []"
  by (simp add: non_null_def)

lemma non_null_empty_iff: "non_null ys = [] \<longleftrightarrow> (\<forall>y\<in>set ys. y = None)"
proof (induction ys)
  case Nil
  show ?case by (simp add: non_null_Nil)
next
  case (Cons y ys)
  then show ?case by (cases y) (simp_all add: non_null_Cons)
qed

lemma sum_list_non_null: "sum_list (non_null ys) = sum_list (map null_to_0 ys)"
proof (induction ys)
  case Nil
  show ?case by (simp add: non_null_Nil)
next
  case (Cons y ys)
  then show ?case by (cases y) (simp_all add: non_null_Cons null_to_0_def)
qed

lemma sql_sum_alt:
  "sql_sum ys = (if \<forall>y\<in>set ys. y = None then None else Some (sum_list (map null_to_0 ys)))"
proof (cases "non_null ys")
  case Nil
  with non_null_empty_iff [of ys] show ?thesis
    by (simp add: sql_sum_def)
next
  case (Cons z zs)
  with non_null_empty_iff [of ys] have "\<not> (\<forall>y\<in>set ys. y = None)"
    by simp
  moreover from Cons sum_list_non_null [of ys] have "sum_list (z # zs) = sum_list (map null_to_0 ys)"
    by simp
  ultimately show ?thesis
    using Cons by (simp add: sql_sum_def)
qed


lemma t3_of_fields:
  "t3_instanceId (t3_of rs r) = t2_instanceId r"
  "t3_lwAccount (t3_of rs r) = t2_lwAccount r"
  "t3_accountId (t3_of rs r) = t2_accountId r"
  "t3_instcount (t3_of rs r) = t2_instcount r"
  "total_coverage (t3_of rs r) = coverage_of_instance rs (t2_instanceId r)"
  by (simp_all add: t3_of_def Let_def coverage_of_instance_def)

lemma t2_scan_keys:
  "map (\<lambda>r. (t2_instanceId r, t2_lwAccount r, t2_accountId r)) (t2_scan e hs) =
   map (\<lambda>p. (fst p, v_lwAccount (snd p), v_accountId (snd p))) hs"
  by (induction e hs rule: t2_scan.induct) simp_all

lemma group_rows_report:
  "group_rows (map (t3_of rs) rs) k =
   map (t3_of rs) (filter (\<lambda>x. (t2_lwAccount x, t2_accountId x) = k) rs)"
  by (simp add: group_rows_def filter_map comp_def t3_of_fields)

lemma instance_score_of_group:
  assumes "i \<in> t3_instanceId ` set g" "\<forall>r\<in>set g. total_coverage r = sc (t3_instanceId r)"
  shows "instance_score g i = sc i"
  using assms
proof (induction g)
  case Nil
  then show ?case by simp
next
  case (Cons r g)
  show ?case
  proof (cases "t3_instanceId r = i")
    case True
    with Cons.prems(2) show ?thesis
      by (simp add: instance_score_def)
  next
    case False
    with Cons.prems have "i \<in> t3_instanceId ` set g" "\<forall>r\<in>set g. total_coverage r = sc (t3_instanceId r)"
      by auto
    then have "instance_score g i = sc i"
      by (rule Cons.IH)
    with False show ?thesis
      by (simp add: instance_score_def)
  qed
qed

lemma null_to_0_sql_mul: "null_to_0 (sql_mul (Some f) c) = f * null_to_0 c"
  by (cases c) (simp_all add: null_to_0_def sql_mul_def)

lemma sql_mul_None_iff: "sql_mul (Some f) c = None \<longleftrightarrow> c = None"
  by (cases c) (simp_all add: sql_mul_def)

lemma group_score_sum:
  fixes sc :: "string \<Rightarrow> int option"
  assumes H: "\<forall>p\<in>set hs. \<forall>q\<in>set hs. fst p = fst q \<longrightarrow>
             ((v_lwAccount (snd p), v_accountId (snd p)) = k) = ((v_lwAccount (snd q), v_accountId (snd q)) = k)"
  defines "gx \<equiv> filter (\<lambda>x. (t2_lwAccount x, t2_accountId x) = k) (t2_scan [] hs)"
  shows "sql_sum (map (\<lambda>x. sql_mul (Some (t2_instcount x)) (sc (t2_instanceId x))) gx) =
         sql_sum (map sc (remdups (map t2_instanceId gx)))"
proof -
  let ?w = "\<lambda>i. null_to_0 (sc i)"
  let ?I = "{i. \<exists>x. (i, x) \<in> set hs \<and> (v_lwAccount x, v_accountId x) = k}"
  have keys: "t2_instanceId ` set gx = ?I"
  proof -
    have "set (map (\<lambda>r. (t2_instanceId r, t2_lwAccount r, t2_accountId r)) (t2_scan [] hs)) =
        set (map (\<lambda>p. (fst p, v_lwAccount (snd p), v_accountId (snd p))) hs)"
      by (simp only: t2_scan_keys)
    then have e: "(\<lambda>r. (t2_instanceId r, t2_lwAccount r, t2_accountId r)) ` set (t2_scan [] hs) =
        (\<lambda>p. (fst p, v_lwAccount (snd p), v_accountId (snd p))) ` set hs"
      by simp
    have "t2_instanceId ` set gx =
        {i. (i, fst k, snd k) \<in> (\<lambda>r. (t2_instanceId r, t2_lwAccount r, t2_accountId r)) ` set (t2_scan [] hs)}"
      unfolding gx_def by (cases k) auto
    also have "\<dots> = {i. (i, fst k, snd k) \<in> (\<lambda>p. (fst p, v_lwAccount (snd p), v_accountId (snd p))) ` set hs}"
      unfolding e ..
    also have "\<dots> = ?I"
      by (cases k) force
    finally show ?thesis .
  qed
  have total: "sum_list (map (\<lambda>r. t2_instcount r * ?w (t2_instanceId r)) gx) = sum ?w ?I"
    unfolding gx_def using instcount_sum [where w = "?w" and e = "[]", OF H] by simp
  have lhs: "sql_sum (map (\<lambda>x. sql_mul (Some (t2_instcount x)) (sc (t2_instanceId x))) gx) =
      (if \<forall>i\<in>?I. sc i = None then None else Some (sum ?w ?I))"
  proof -
    have "(\<forall>y\<in>set (map (\<lambda>x. sql_mul (Some (t2_instcount x)) (sc (t2_instanceId x))) gx). y = None)
        = (\<forall>i\<in>t2_instanceId ` set gx. sc i = None)"
      by (simp add: sql_mul_None_iff)
    then have A: "(\<forall>y\<in>set (map (\<lambda>x. sql_mul (Some (t2_instcount x)) (sc (t2_instanceId x))) gx). y = None)
        = (\<forall>i\<in>?I. sc i = None)"
      unfolding keys .
    have "sum_list (map null_to_0 (map (\<lambda>x. sql_mul (Some (t2_instcount x)) (sc (t2_instanceId x))) gx))
        = sum_list (map (\<lambda>r. t2_instcount r * ?w (t2_instanceId r)) gx)"
      by (simp add: comp_def null_to_0_sql_mul)
    then have B: "sum_list (map null_to_0 (map (\<lambda>x. sql_mul (Some (t2_instcount x)) (sc (t2_instanceId x))) gx))
        = sum ?w ?I"
      unfolding total .
    show ?thesis
      unfolding sql_sum_alt A B ..
  qed
  have rhs: "sql_sum (map sc (remdups (map t2_instanceId gx))) =
      (if \<forall>i\<in>?I. sc i = None then None else Some (sum ?w ?I))"
  proof -
    have s: "set (remdups (map t2_instanceId gx)) = ?I"
      using keys by simp
    have "(\<forall>y\<in>set (map sc (remdups (map t2_instanceId gx))). y = None)
        = (\<forall>i\<in>set (remdups (map t2_instanceId gx)). sc i = None)"
      by simp
    then have A: "(\<forall>y\<in>set (map sc (remdups (map t2_instanceId gx))). y = None) = (\<forall>i\<in>?I. sc i = None)"
      unfolding s .
    have "sum_list (map ?w (remdups (map t2_instanceId gx))) = sum ?w (set (remdups (map t2_instanceId gx)))"
      by (rule sum_list_distinct_conv_sum_set) simp
    then have "sum_list (map ?w (remdups (map t2_instanceId gx))) = sum ?w ?I"
      unfolding s .
    then have B: "sum_list (map null_to_0 (map sc (remdups (map t2_instanceId gx)))) = sum ?w ?I"
      by (simp add: comp_def)
    show ?thesis
      unfolding sql_sum_alt A B ..
  qed
  show ?thesis
    unfolding lhs rhs ..
qed

lemma instances_in_one_group:
  assumes "\<forall>r\<in>set (VulnerabilityQueries_report ms tbl). \<forall>r'\<in>set (VulnerabilityQueries_report ms tbl).
             t3_instanceId r = t3_instanceId r' \<longrightarrow>
             t3_lwAccount r = t3_lwAccount r' \<and> t3_accountId r = t3_accountId r'"
  shows "\<forall>p\<in>set (has_agent_rows ms tbl). \<forall>q\<in>set (has_agent_rows ms tbl). fst p = fst q \<longrightarrow>
           ((v_lwAccount (snd p), v_accountId (snd p)) = k) = ((v_lwAccount (snd q), v_accountId (snd q)) = k)"
proof (intro ballI impI)
  fix p q
  assume p: "p \<in> set (has_agent_rows ms tbl)" and q: "q \<in> set (has_agent_rows ms tbl)"
    and pq: "fst p = fst q"
  let ?rs = "t2_scan [] (has_agent_rows ms tbl)"
  let ?key2 = "\<lambda>r. (t2_instanceId r, t2_lwAccount r, t2_accountId r)"
  let ?keyv = "\<lambda>p. (fst p, v_lwAccount (snd p), v_accountId (snd p))"
  have "set (map ?key2 ?rs) = set (map ?keyv (has_agent_rows ms tbl))"
    by (simp only: t2_scan_keys)
  then have e: "?key2 ` set ?rs = ?keyv ` set (has_agent_rows ms tbl)"
    by simp
  from p have "?keyv p \<in> ?key2 ` set ?rs"
    unfolding e by (rule imageI)
  then obtain x where x: "x \<in> set ?rs" "?key2 x = ?keyv p"
    by (metis (no_types, lifting) imageE)
  from q have "?keyv q \<in> ?key2 ` set ?rs"
    unfolding e by (rule imageI)
  then obtain y where y: "y \<in> set ?rs" "?key2 y = ?keyv q"
    by (metis (no_types, lifting) imageE)
  from x(1) y(1) have "t3_of ?rs x \<in> set (VulnerabilityQueries_report ms tbl)"
    "t3_of ?rs y \<in> set (VulnerabilityQueries_report ms tbl)"
    by (simp_all add: VulnerabilityQueries_report_def t2_def Let_def)
  moreover from x(2) y(2) pq have "t3_instanceId (t3_of ?rs x) = t3_instanceId (t3_of ?rs y)"
    by (simp add: t3_of_fields)
  ultimately have "t3_lwAccount (t3_of ?rs x) = t3_lwAccount (t3_of ?rs y) \<and>
      t3_accountId (t3_of ?rs x) = t3_accountId (t3_of ?rs y)"
    using assms by blast
  with x(2) y(2) have "v_lwAccount (snd p) = v_lwAccount (snd q)" "v_accountId (snd p) = v_accountId (snd q)"
    by (simp_all add: t3_of_fields)
  then show "((v_lwAccount (snd p), v_accountId (snd p)) = k) = ((v_lwAccount (snd q), v_accountId (snd q)) = k)"
    by simp
qed

lemma group_coverage_is_weighted:
  assumes "\<forall>r\<in>set (VulnerabilityQueries_report ms tbl). \<forall>r'\<in>set (VulnerabilityQueries_report ms tbl).
             t3_instanceId r = t3_instanceId r' \<longrightarrow>
             t3_lwAccount r = t3_lwAccount r' \<and> t3_accountId r = t3_accountId r'"
  shows "ac_total_coverage (account_coverage_of ms k (group_rows (VulnerabilityQueries_report ms tbl) k)) =
         spec_weighted_coverage (filter (\<lambda>m. fst k = m_lwAccount m \<and> snd k = m_accountId m) ms)
           (group_rows (VulnerabilityQueries_report ms tbl) k)"
proof -
  let ?rs = "t2_scan [] (has_agent_rows ms tbl)"
  let ?gx = "filter (\<lambda>x. (t2_lwAccount x, t2_accountId x) = k) ?rs"
  let ?g = "group_rows (VulnerabilityQueries_report ms tbl) k"
  let ?sc = "coverage_of_instance ?rs"
  have rep: "VulnerabilityQueries_report ms tbl = map (t3_of ?rs) ?rs"
    by (simp add: VulnerabilityQueries_report_def t2_def Let_def)
  have g: "?g = map (t3_of ?rs) ?gx"
    unfolding rep by (rule group_rows_report)
  have terms: "map (\<lambda>r. sql_mul (Some (t3_instcount r)) (total_coverage r)) ?g =
      map (\<lambda>x. sql_mul (Some (t2_instcount x)) (?sc (t2_instanceId x))) ?gx"
    unfolding g by (simp add: comp_def t3_of_fields)
  have insts: "map t3_instanceId ?g = map t2_instanceId ?gx"
    unfolding g by (simp add: comp_def t3_of_fields)
  have "\<forall>r\<in>set ?g. total_coverage r = ?sc (t3_instanceId r)"
    unfolding g by (simp add: t3_of_fields)
  then have "instance_score ?g i = ?sc i" if "i \<in> set (remdups (map t3_instanceId ?g))" for i
    using that by (intro instance_score_of_group) simp_all
  then have "map (instance_score ?g) (remdups (map t3_instanceId ?g)) =
      map ?sc (remdups (map t3_instanceId ?g))"
    by (intro map_cong) simp_all
  then have scores: "map (instance_score ?g) (remdups (map t3_instanceId ?g)) =
      map ?sc (remdups (map t2_instanceId ?gx))"
    unfolding insts .
  from instances_in_one_group [OF assms, of k]
  have "sql_sum (map (\<lambda>x. sql_mul (Some (t2_instcount x)) (?sc (t2_instanceId x))) ?gx) =
      sql_sum (map ?sc (remdups (map t2_instanceId ?gx)))"
    by (rule group_score_sum)
  then have "sql_sum (map (\<lambda>r. sql_mul (Some (t3_instcount r)) (total_coverage r)) ?g) =
      sql_sum (map (instance_score ?g) (remdups (map t3_instanceId ?g)))"
    unfolding terms scores .
  then show ?thesis
    by (simp add: account_coverage_of_def spec_weighted_coverage_def total_assets_of_def Let_def)
qed


text \<open>
  C5, as stated, fails.  \<^verbatim>\<open>_instcount\<close> marks one row per instance id in the whole
  table, not one per account.  When two accounts report the same instance id, only the
  account holding the marked row receives the instance's score: on the example both
  accounts have one asset, in violation with score 9; the first account's coverage is 9
  and the second's is \<open>(0 * 100 + 0) / 1 = 0\<close>, where the formula of the claim gives 9
  for both.
\<close>

theorem account_coverage_shared_instance:
  "map (\<lambda>r. (ac_accountId r, ac_total_assets r, ac_total_assets_in_violation r, ac_total_coverage r))
     (VulnerabilityQueries_account_coverage ex_shared_machines ex_shared_vulns)
     = [(''aws:1'', 1, 1, Some 9), (''aws:2'', 1, 1, Some 0)] \<and>
   map (\<lambda>r. (t3_accountId r, t3_instanceId r, total_coverage r))
     (VulnerabilityQueries_report ex_shared_machines ex_shared_vulns)
     = [(''aws:1'', ''i1'', Some 9), (''aws:2'', ''i1'', Some 9)] \<and>
   map (\<lambda>k. spec_weighted_coverage
              (filter (\<lambda>m. fst k = m_lwAccount m \<and> snd k = m_accountId m) ex_shared_machines)
              (group_rows (VulnerabilityQueries_report ex_shared_machines ex_shared_vulns) k))
     (group_keys (VulnerabilityQueries_report ex_shared_machines ex_shared_vulns))
     = [Some 9, Some 9]"
  by code_simp

text \<open>
  C5, amended.  When no instance id occurs under two accounts, the account query has
  one row per account group of the report, its \<^verbatim>\<open>total_assets\<close> is the number of
  distinct agent instance ids of the \<^verbatim>\<open>machines\<close> rows of that tenant and account,
  and its \<^verbatim>\<open>total_coverage\<close> is the weighted formula over that inventory and the
  group's instances: \<open>((total_assets - instances with findings) * 100 + sum of their
  scores) / total_assets\<close> in SQL arithmetic (an instance whose score is \<^verbatim>\<open>NULL\<close> adds
  nothing, the result is \<^verbatim>\<open>NULL\<close> when no instance has a score or
  \<^verbatim>\<open>total_assets\<close> is 0, and the division truncates).  Ten assets, two of them scored
  50 each, give 90.
\<close>

theorem account_coverage_is_weighted:
  assumes "\<forall>r\<in>set (VulnerabilityQueries_report ms tbl). \<forall>r'\<in>set (VulnerabilityQueries_report ms tbl).
             t3_instanceId r = t3_instanceId r' \<longrightarrow>
             t3_lwAccount r = t3_lwAccount r' \<and> t3_accountId r = t3_accountId r'"
  shows "map (\<lambda>r. (ac_lwAccount r, ac_accountId r)) (VulnerabilityQueries_account_coverage ms tbl)
           = group_keys (VulnerabilityQueries_report ms tbl) \<and>
         map ac_total_assets (VulnerabilityQueries_account_coverage ms tbl)
           = map (\<lambda>k. sql_count_distinct
                        (map tag_instanceId (filter (\<lambda>m. fst k = m_lwAccount m \<and> snd k = m_accountId m) ms)))
               (group_keys (VulnerabilityQueries_report ms tbl)) \<and>
         map ac_total_coverage (VulnerabilityQueries_account_coverage ms tbl)
           = map (\<lambda>k. spec_weighted_coverage
                        (filter (\<lambda>m. fst k = m_lwAccount m \<and> snd k = m_accountId m) ms)
                        (group_rows (VulnerabilityQueries_report ms tbl) k))
               (group_keys (VulnerabilityQueries_report ms tbl)) \<and>
         sql_div (sql_add (Some ((10 - 2) * 100)) (sql_sum [Some 50, Some 50])) (Some 10) = Some 90"
proof -
  have "map (\<lambda>r. (ac_lwAccount r, ac_accountId r)) (VulnerabilityQueries_account_coverage ms tbl)
           = group_keys (VulnerabilityQueries_report ms tbl)"
    by (simp add: VulnerabilityQueries_account_coverage_def account_coverage_of_def Let_def comp_def)
  moreover have "map ac_total_assets (VulnerabilityQueries_account_coverage ms tbl)
           = map (\<lambda>k. sql_count_distinct
                        (map tag_instanceId (filter (\<lambda>m. fst k = m_lwAccount m \<and> snd k = m_accountId m) ms)))
               (group_keys (VulnerabilityQueries_report ms tbl))"
    by (simp add: VulnerabilityQueries_account_coverage_def account_coverage_of_def total_assets_of_def
        Let_def comp_def)
  moreover have "map ac_total_coverage (VulnerabilityQueries_account_coverage ms tbl)
           = map (\<lambda>k. spec_weighted_coverage
                        (filter (\<lambda>m. fst k = m_lwAccount m \<and> snd k = m_accountId m) ms)
                        (group_rows (VulnerabilityQueries_report ms tbl) k))
               (group_keys (VulnerabilityQueries_report ms tbl))"
    unfolding VulnerabilityQueries_account_coverage_def Let_def
    using group_coverage_is_weighted [OF assms] by simp
  moreover have "sql_div (sql_add (Some ((10 - 2) * 100)) (sql_sum [Some 50, Some 50])) (Some 10) = Some 90"
    by (simp add: sql_div_def sql_add_def sql_sum_def non_null_def trunc_div_def)
  ultimately show ?thesis
    by blast
qed

theorem account_coverage_is_weighted_witness:
  "map ac_total_coverage (VulnerabilityQueries_account_coverage ex_machines ex_vulns) = [Some 9, Some 69] \<and>
   map ac_total_assets (VulnerabilityQueries_account_coverage ex_machines ex_vulns) = [1, 3]"
proof -
  have h: "\<forall>r\<in>set (VulnerabilityQueries_report ex_machines ex_vulns).
           \<forall>r'\<in>set (VulnerabilityQueries_report ex_machines ex_vulns).
             t3_instanceId r = t3_instanceId r' \<longrightarrow>
             t3_lwAccount r = t3_lwAccount r' \<and> t3_accountId r = t3_accountId r'"
    by code_simp
  have a: "map (\<lambda>k. sql_count_distinct
                        (map tag_instanceId (filter (\<lambda>m. fst k = m_lwAccount m \<and> snd k = m_accountId m) ex_machines)))
               (group_keys (VulnerabilityQueries_report ex_machines ex_vulns)) = [1, 3]"
    by code_simp
  have c: "map (\<lambda>k. spec_weighted_coverage
                        (filter (\<lambda>m. fst k = m_lwAccount m \<and> snd k = m_accountId m) ex_machines)
                        (group_rows (VulnerabilityQueries_report ex_machines ex_vulns) k))
               (group_keys (VulnerabilityQueries_report ex_machines ex_vulns)) = [Some 9, Some 69]"
    by code_simp
  from account_coverage_is_weighted [OF h] show ?thesis
    unfolding a c by blast
qed

subsection \<open>The sync store: schema evolution\<close>


















lemma sync_example:
  "map_sum id (\<lambda>p. (db_table (snd p), statements (snd p))) (sqlite_sync_report ex_infer ex_report []) =
     Inr (Some \<lparr> columns = [(''lwAccount'', TEXT), (''a'', Inferred ''BIGINT''), (''b'', JSON),
                            (''c'', INTEGER), (''d'', TEXT)],
                 rows = ex_report \<rparr>,
          [ToSql (ex_report ! 0),
           ToSql (ex_report ! 1), SelectLimit1, AlterAddColumn ''b'' JSON, AlterAddColumn ''c'' INTEGER,
           ToSql (ex_report ! 1),
           ToSql (ex_report ! 2), SelectLimit1, AlterAddColumn ''d'' TEXT, ToSql (ex_report ! 2)])"
  by code_simp

subsection \<open>The sync store: round trip through the tenant query\<close>







subsection \<open>Discovery: no account id twice\<close>







lemma first_separator_unique:
  "c \<notin> set xs \<Longrightarrow> c \<notin> set xs' \<Longrightarrow> xs @ c # ys = xs' @ c # ys' \<Longrightarrow> xs = xs' \<and> ys = ys'"
proof (induction xs arbitrary: xs')
  case Nil
  then show ?case by (cases xs') auto
next
  case (Cons x xs)
  then show ?case by (cases xs') auto
qed

lemma aws_ids_mono: "aws_ids A \<subseteq> aws_ids (A @ [x])"
  by (auto simp add: aws_ids_def)

lemma gcp_ids_mono: "gcp_ids G \<subseteq> gcp_ids (G @ [p])"
  by (auto simp add: gcp_ids_def)

lemma az_ids_mono: "az_ids Z \<subseteq> az_ids (Z @ [s])"
  by (auto simp add: az_ids_def)

lemma aws_ids_new: "''aws:'' @ x \<in> aws_ids (A @ [x])"
  by (simp add: aws_ids_def)

lemma gcp_ids_new: "CHR '':'' \<notin> set org \<Longrightarrow> ''gcp:'' @ org @ '':'' @ p \<in> gcp_ids (G @ [p])"
  by (auto simp add: gcp_ids_def)

lemma az_ids_new: "CHR '':'' \<notin> set tenant \<Longrightarrow> ''az:'' @ tenant @ '':'' @ s \<in> az_ids (Z @ [s])"
  by (auto simp add: az_ids_def)

lemma aws_not_others: "''aws:'' @ x \<notin> gcp_ids G" "''aws:'' @ x \<notin> az_ids Z"
  by (auto simp add: gcp_ids_def az_ids_def)

lemma gcp_not_others: "''gcp:'' @ y \<notin> aws_ids A" "''gcp:'' @ y \<notin> az_ids Z"
  by (auto simp add: aws_ids_def az_ids_def)

lemma az_not_others: "''az:'' @ y \<notin> aws_ids A" "''az:'' @ y \<notin> gcp_ids G"
  by (auto simp add: aws_ids_def gcp_ids_def)

lemma aws_id_fresh: "x \<notin> set A \<Longrightarrow> ''aws:'' @ x \<notin> aws_ids A"
  by (auto simp add: aws_ids_def)

lemma gcp_id_fresh:
  assumes "CHR '':'' \<notin> set org" "p \<notin> set G"
  shows "''gcp:'' @ org @ '':'' @ p \<notin> gcp_ids G"
proof
  assume "''gcp:'' @ org @ '':'' @ p \<in> gcp_ids G"
  then obtain org' p' where e: "org @ CHR '':'' # p = org' @ CHR '':'' # p'"
    and c: "CHR '':'' \<notin> set org'" and m: "p' \<in> set G"
    by (auto simp add: gcp_ids_def)
  from first_separator_unique [OF assms(1) c e] have "p = p'"
    by simp
  with m assms(2) show False
    by simp
qed

lemma az_id_fresh:
  assumes "CHR '':'' \<notin> set tenant" "s \<notin> set Z"
  shows "''az:'' @ tenant @ '':'' @ s \<notin> az_ids Z"
proof
  assume "''az:'' @ tenant @ '':'' @ s \<in> az_ids Z"
  then obtain tenant' s' where e: "tenant @ CHR '':'' # s = tenant' @ CHR '':'' # s'"
    and c: "CHR '':'' \<notin> set tenant'" and m: "s' \<in> set Z"
    by (auto simp add: az_ids_def)
  from first_separator_unique [OF assms(1) c e] have "s = s'"
    by simp
  with m assms(2) show False
    by simp
qed

lemma inv_add_aws:
  assumes "discovery_inv st" "x \<notin> set (aws_accounts st)" "a_accountId d = ''aws:'' @ x"
  shows "discovery_inv (st\<lparr> accounts := accounts st @ [d], aws_accounts := aws_accounts st @ [x] \<rparr>)"
proof -
  from assms(2) have "''aws:'' @ x \<notin> known_ids st"
    unfolding known_ids_def using aws_id_fresh aws_not_others by blast
  with assms(1,3) have "distinct (map a_accountId (accounts st @ [d]))"
    by (auto simp add: discovery_inv_def)
  moreover from assms(1,3) have "set (map a_accountId (accounts st @ [d])) \<subseteq>
      aws_ids (aws_accounts st @ [x]) \<union> gcp_ids (gcp_accounts st) \<union> az_ids (azure_accounts st)"
    using aws_ids_mono [of "aws_accounts st" x] aws_ids_new [of x "aws_accounts st"]
    by (auto simp add: discovery_inv_def known_ids_def)
  ultimately show ?thesis
    by (simp add: discovery_inv_def known_ids_def)
qed

lemma inv_add_gcp:
  assumes "discovery_inv st" "p \<notin> set (gcp_accounts st)" "CHR '':'' \<notin> set org"
    "a_accountId d = ''gcp:'' @ org @ '':'' @ p"
  shows "discovery_inv (st\<lparr> accounts := accounts st @ [d], gcp_accounts := gcp_accounts st @ [p] \<rparr>)"
proof -
  from assms(2,3) have "''gcp:'' @ org @ '':'' @ p \<notin> known_ids st"
    unfolding known_ids_def using gcp_not_others gcp_id_fresh by blast
  with assms(1,4) have "distinct (map a_accountId (accounts st @ [d]))"
    by (auto simp add: discovery_inv_def)
  moreover from assms(1,3,4) have "set (map a_accountId (accounts st @ [d])) \<subseteq>
      aws_ids (aws_accounts st) \<union> gcp_ids (gcp_accounts st @ [p]) \<union> az_ids (azure_accounts st)"
    using gcp_ids_mono [of "gcp_accounts st" p] gcp_ids_new [of org p "gcp_accounts st"]
    by (auto simp add: discovery_inv_def known_ids_def)
  ultimately show ?thesis
    by (simp add: discovery_inv_def known_ids_def)
qed

lemma inv_add_az:
  assumes "discovery_inv st" "s \<notin> set (azure_accounts st)" "CHR '':'' \<notin> set tenant"
    "a_accountId d = ''az:'' @ tenant @ '':'' @ s"
  shows "discovery_inv (st\<lparr> accounts := accounts st @ [d], azure_accounts := azure_accounts st @ [s] \<rparr>)"
proof -
  from assms(2,3) have "''az:'' @ tenant @ '':'' @ s \<notin> known_ids st"
    unfolding known_ids_def using az_not_others az_id_fresh by blast
  with assms(1,4) have "distinct (map a_accountId (accounts st @ [d]))"
    by (auto simp add: discovery_inv_def)
  moreover from assms(1,3,4) have "set (map a_accountId (accounts st @ [d])) \<subseteq>
      aws_ids (aws_accounts st) \<union> gcp_ids (gcp_accounts st) \<union> az_ids (azure_accounts st @ [s])"
    using az_ids_mono [of "azure_accounts st" s] az_ids_new [of tenant s "azure_accounts st"]
    by (auto simp add: discovery_inv_def known_ids_def)
  ultimately show ?thesis
    by (simp add: discovery_inv_def known_ids_def)
qed

lemma inv_add_gcp_project:
  assumes "discovery_inv st" "CHR '':'' \<notin> set (fmt orgId)"
  shows "discovery_inv (add_gcp_project lw orgId r p st)"
proof (cases "p \<in> set (gcp_accounts st)")
  case True
  with assms(1) show ?thesis
    by (simp add: add_gcp_project_def)
next
  case False
  have "a_accountId (integration_data lw (''gcp:'' @ fmt orgId @ '':'' @ p) r) = ''gcp:'' @ fmt orgId @ '':'' @ p"
    by (simp add: integration_data_def)
  from inv_add_gcp [OF assms(1) False assms(2) this] False show ?thesis
    by (simp add: add_gcp_project_def Let_def)
qed

lemma inv_fold_gcp:
  assumes "discovery_inv st" "CHR '':'' \<notin> set (fmt orgId)"
  shows "discovery_inv (fold (add_gcp_project lw orgId r) ps st)"
  using assms(1)
proof (induction ps arbitrary: st)
  case Nil
  then show ?case by simp
next
  case (Cons p ps)
  from Cons.prems assms(2) have "discovery_inv (add_gcp_project lw orgId r p st)"
    by (rule inv_add_gcp_project)
  then show ?case
    by (simp add: Cons.IH)
qed

lemma inv_add_azure_subscription:
  assumes "discovery_inv st" "CHR '':'' \<notin> set (i_tenantId r)"
  shows "discovery_inv (add_azure_subscription lw r s st)"
proof (cases "upper s \<in> set (azure_accounts st)")
  case True
  with assms(1) show ?thesis
    by (simp add: add_azure_subscription_def)
next
  case False
  have "a_accountId (integration_data lw (''az:'' @ i_tenantId r @ '':'' @ upper s) r) =
      ''az:'' @ i_tenantId r @ '':'' @ upper s"
    by (simp add: integration_data_def)
  from inv_add_az [OF assms(1) False assms(2) this] False show ?thesis
    by (simp add: add_azure_subscription_def Let_def)
qed

lemma inv_fold_azure:
  assumes "discovery_inv st" "CHR '':'' \<notin> set (i_tenantId r)"
  shows "discovery_inv (fold (add_azure_subscription lw r) ss st)"
  using assms(1)
proof (induction ss arbitrary: st)
  case Nil
  then show ?case by simp
next
  case (Cons s ss)
  from Cons.prems assms(2) have "discovery_inv (add_azure_subscription lw r s st)"
    by (rule inv_add_azure_subscription)
  then show ?case
    by (simp add: Cons.IH)
qed

lemma fmt_gcp_orgId_no_colon:
  assumes "CHR '':'' \<notin> set (i_data_id r)" "CHR '':'' \<notin> set (fmt organization)"
  shows "CHR '':'' \<notin> set (fmt (gcp_orgId organization r))"
  using assms by (auto simp add: gcp_orgId_def fmt_def Let_def split: option.splits)

lemma inv_integration_row:
  assumes "discovery_inv st"
    and "CHR '':'' \<notin> set (i_data_id r)" "CHR '':'' \<notin> set (i_tenantId r)"
    and "CHR '':'' \<notin> set (fmt organization)"
    and "integration_row lw organization st r = Inr st'"
  shows "discovery_inv st'"
proof -
  consider (gcp) "i_type r = ''GcpCfg''"
    | (aws) "i_type r \<noteq> ''GcpCfg''" "i_type r = ''AwsCfg''"
    | (az) "i_type r \<noteq> ''GcpCfg''" "i_type r \<noteq> ''AwsCfg''" "i_type r = ''AzureCfg''"
    | (other) "i_type r \<noteq> ''GcpCfg''" "i_type r \<noteq> ''AwsCfg''" "i_type r \<noteq> ''AzureCfg''"
    by blast
  then show ?thesis
  proof cases
    case gcp
    with assms(5) have "st' = fold (add_gcp_project lw (gcp_orgId organization r) r) (i_projectErrors r) st"
      by (simp add: integration_row_def)
    with assms(1) fmt_gcp_orgId_no_colon [OF assms(2,4)] show ?thesis
      by (simp add: inv_fold_gcp)
  next
    case aws
    let ?parts = "split_on CHR '':'' (i_roleArn r)"
    from aws assms(5) have len: "\<not> length ?parts \<le> 4"
      by (auto simp add: integration_row_def Let_def split: if_splits)
    show ?thesis
    proof (cases "?parts ! 4 \<in> set (aws_accounts st)")
      case True
      with aws assms(5) len have "st' = st"
        by (simp add: integration_row_def Let_def)
      with assms(1) show ?thesis by simp
    next
      case False
      have "a_accountId (integration_data lw (''aws:'' @ ?parts ! 4) r) = ''aws:'' @ ?parts ! 4"
        by (simp add: integration_data_def)
      from inv_add_aws [OF assms(1) False this] aws assms(5) len False show ?thesis
        by (simp add: integration_row_def Let_def)
    qed
  next
    case az
    with assms(5) have "st' = fold (add_azure_subscription lw r) (i_subscriptionErrors r) st"
      by (simp add: integration_row_def)
    with assms(1,3) show ?thesis
      by (simp add: inv_fold_azure)
  next
    case other
    with assms(5) have "st' = st"
      by (simp add: integration_row_def)
    with assms(1) show ?thesis by simp
  qed
qed

lemma inv_integration_pass:
  assumes "discovery_inv st"
    and "\<forall>r\<in>set rs. CHR '':'' \<notin> set (i_data_id r) \<and> CHR '':'' \<notin> set (i_tenantId r)"
    and "CHR '':'' \<notin> set (fmt organization)"
    and "integration_pass lw organization st rs = Inr st'"
  shows "discovery_inv st'"
  using assms(1,2,4)
proof (induction rs arbitrary: st)
  case Nil
  then show ?case by simp
next
  case (Cons r rs)
  from Cons.prems(3) obtain st1 where st1: "integration_row lw organization st r = Inr st1"
    "integration_pass lw organization st1 rs = Inr st'"
    by (auto split: sum.splits)
  from Cons.prems(2) have "CHR '':'' \<notin> set (i_data_id r)" "CHR '':'' \<notin> set (i_tenantId r)"
    by simp_all
  from inv_integration_row [OF Cons.prems(1) this assms(3) st1(1)] have "discovery_inv st1" .
  moreover from Cons.prems(2) have "\<forall>r\<in>set rs. CHR '':'' \<notin> set (i_data_id r) \<and> CHR '':'' \<notin> set (i_tenantId r)"
    by simp
  ultimately show ?case
    using st1(2) by (rule Cons.IH)
qed

lemma inv_telemetry_row:
  assumes "discovery_inv st"
  shows "discovery_inv (telemetry_row lw m st)"
proof -
  have a: "a_accountId (lql_data lw i ty) = i" for i ty
    by (simp add: lql_data_def)
  have e: "CHR '':'' \<notin> set ([] :: string)"
    by simp
  have aws: "discovery_inv (st\<lparr> accounts := accounts st @ [lql_data lw (''aws:'' @ x) ty],
                                aws_accounts := aws_accounts st @ [x] \<rparr>)"
    if "x \<notin> set (aws_accounts st)" for x ty
    using inv_add_aws [OF assms that a] .
  have gcp: "discovery_inv (st\<lparr> accounts := accounts st @ [lql_data lw (''gcp::'' @ p) ty],
                                gcp_accounts := gcp_accounts st @ [p] \<rparr>)"
    if "p \<notin> set (gcp_accounts st)" for p ty
    using inv_add_gcp [OF assms that e, of "lql_data lw (''gcp::'' @ p) ty"] a by simp
  have az: "discovery_inv (st\<lparr> accounts := accounts st @ [lql_data lw (''az::'' @ p) ty],
                               azure_accounts := azure_accounts st @ [p] \<rparr>)"
    if "p \<notin> set (azure_accounts st)" for p ty
    using inv_add_az [OF assms that e, of "lql_data lw (''az::'' @ p) ty"] a by simp
  show ?thesis
    unfolding telemetry_row_def Let_def
    using assms aws gcp az by (simp split: if_splits)
qed

lemma inv_telemetry_pass:
  "discovery_inv st \<Longrightarrow> discovery_inv (telemetry_pass lw st ms)"
  unfolding telemetry_pass_def
proof (induction ms arbitrary: st)
  case Nil
  then show ?case by simp
next
  case (Cons m ms)
  then show ?case
    by (simp add: inv_telemetry_row)
qed

lemma telemetry_row_cases:
  "telemetry_row lw m st = st \<or>
   (\<exists>x. ACCOUNTID m = Some x \<and> VMPROVIDER m = Some ''AWS'' \<and> x \<notin> set (aws_accounts st) \<and>
        telemetry_row lw m st =
          st\<lparr> accounts := accounts st @ [lql_data lw (''aws:'' @ x) ''AwsLql''],
               aws_accounts := aws_accounts st @ [x] \<rparr>) \<or>
   (\<exists>p. PROJECTID m = Some p \<and> VMPROVIDER m = Some ''GCE'' \<and> p \<notin> set (gcp_accounts st) \<and>
        telemetry_row lw m st =
          st\<lparr> accounts := accounts st @ [lql_data lw (''gcp::'' @ p) ''GcpLql''],
               gcp_accounts := gcp_accounts st @ [p] \<rparr>) \<or>
   (\<exists>p. PROJECTID m = Some p \<and> VMPROVIDER m = Some ''Azure'' \<and> p \<notin> set (azure_accounts st) \<and>
        telemetry_row lw m st =
          st\<lparr> accounts := accounts st @ [lql_data lw (''az::'' @ p) ''AzureLql''],
               azure_accounts := azure_accounts st @ [p] \<rparr>)"
  unfolding telemetry_row_def Let_def by auto


lemma telemetry_pass_appends:
  "\<exists>new. accounts (telemetry_pass lw st ms) = accounts st @ new \<and>
         (\<forall>a\<in>set new. lql_candidate lw st ms a) \<and>
         set (aws_accounts st) \<subseteq> set (aws_accounts (telemetry_pass lw st ms)) \<and>
         set (gcp_accounts st) \<subseteq> set (gcp_accounts (telemetry_pass lw st ms)) \<and>
         set (azure_accounts st) \<subseteq> set (azure_accounts (telemetry_pass lw st ms))"
proof (induction ms arbitrary: st)
  case Nil
  then show ?case by (simp add: telemetry_pass_def)
next
  case (Cons m ms)
  let ?st1 = "telemetry_row lw m st"
  from Cons.IH [of ?st1] obtain new where new: "accounts (telemetry_pass lw ?st1 ms) = accounts ?st1 @ new"
    "\<forall>a\<in>set new. lql_candidate lw ?st1 ms a"
    "set (aws_accounts ?st1) \<subseteq> set (aws_accounts (telemetry_pass lw ?st1 ms))"
    "set (gcp_accounts ?st1) \<subseteq> set (gcp_accounts (telemetry_pass lw ?st1 ms))"
    "set (azure_accounts ?st1) \<subseteq> set (azure_accounts (telemetry_pass lw ?st1 ms))"
    by blast
  have step: "telemetry_pass lw st (m # ms) = telemetry_pass lw ?st1 ms"
    by (simp add: telemetry_pass_def)
  have grow: "set (aws_accounts st) \<subseteq> set (aws_accounts ?st1)"
    "set (gcp_accounts st) \<subseteq> set (gcp_accounts ?st1)"
    "set (azure_accounts st) \<subseteq> set (azure_accounts ?st1)"
    using telemetry_row_cases [of lw m st] by auto
  have later: "lql_candidate lw st (m # ms) a" if "lql_candidate lw ?st1 ms a" for a
    using that grow unfolding lql_candidate_def by (auto; blast)
  from telemetry_row_cases [of lw m st]
  have "\<exists>first. accounts ?st1 = accounts st @ first \<and> (\<forall>a\<in>set first. lql_candidate lw st (m # ms) a)"
    unfolding lql_candidate_def by (elim disjE exE conjE) (simp_all, blast+)
  then obtain first where first: "accounts ?st1 = accounts st @ first"
    "\<forall>a\<in>set first. lql_candidate lw st (m # ms) a"
    by blast
  from new(1) first(1) have "accounts (telemetry_pass lw st (m # ms)) = accounts st @ (first @ new)"
    by (simp add: step)
  moreover from first(2) new(2) later have "\<forall>a\<in>set (first @ new). lql_candidate lw st (m # ms) a"
    by auto
  ultimately show ?case
    using grow new(3,4,5) unfolding step by blast
qed

lemma gcp_candidate_dropped:
  "PROJECTID m = Some p \<Longrightarrow> VMPROVIDER m = Some ''GCE'' \<Longrightarrow> p \<in> set (gcp_accounts st) \<Longrightarrow>
   telemetry_row lw m st = st"
  by (simp add: telemetry_row_def)

lemma inv_initial:
  "discovery_inv \<lparr> accounts = [], aws_accounts = [], gcp_accounts = [], azure_accounts = [] \<rparr>"
  by (simp add: discovery_inv_def)


text \<open>
  C7, as stated, fails: the parts of an account id are joined with colons, so two
  different pairs of organization and project can spell the same id.  The two example
  integrations (organization \<^verbatim>\<open>a\<close> with project \<^verbatim>\<open>b:c\<close>, organization
  \<^verbatim>\<open>a:b\<close> with project \<^verbatim>\<open>c\<close>) both yield \<^verbatim>\<open>gcp:a:b:c\<close>.
\<close>

theorem cloud_accounts_duplicate_id:
  "map_sum id (map a_accountId) (get_cloud_accounts ex_colon_integrations [] ''t'' None) =
     Inr [''gcp:a:b:c'', ''gcp:a:b:c'']"
  by code_simp

text \<open>
  C7, amended.  When no organization id (of an integration or the override) and no
  tenant id contains a colon, the list that \<^verbatim>\<open>get_cloud_accounts\<close> returns has no
  account id twice.  It consists of the accounts of the integration pass, unchanged
  and in their order, followed by telemetry accounts; each of these is built from the
  raw id of a telemetry row of its provider, and that raw id is not in the provider's
  list as the integration pass left it.  A GCE telemetry row whose project id is in the
  GCP list leaves the state as it is.
\<close>

theorem cloud_accounts_distinct:
  assumes "\<forall>r\<in>set integrations. CHR '':'' \<notin> set (i_data_id r) \<and> CHR '':'' \<notin> set (i_tenantId r)"
    and "CHR '':'' \<notin> set (fmt organization)"
    and "get_cloud_accounts integrations machine_accounts lw organization = Inr result"
  shows "distinct (map a_accountId result) \<and>
         (\<exists>st new.
            integration_pass lw organization
              \<lparr> accounts = [], aws_accounts = [], gcp_accounts = [], azure_accounts = [] \<rparr>
              integrations = Inr st \<and>
            result = accounts st @ new \<and>
            (\<forall>a\<in>set new.
               (\<exists>x. a = lql_data lw (''aws:'' @ x) ''AwsLql'' \<and> x \<notin> set (aws_accounts st) \<and>
                    (\<exists>m\<in>set machine_accounts. ACCOUNTID m = Some x \<and> VMPROVIDER m = Some ''AWS'')) \<or>
               (\<exists>p. a = lql_data lw (''gcp::'' @ p) ''GcpLql'' \<and> p \<notin> set (gcp_accounts st) \<and>
                    (\<exists>m\<in>set machine_accounts. PROJECTID m = Some p \<and> VMPROVIDER m = Some ''GCE'')) \<or>
               (\<exists>p. a = lql_data lw (''az::'' @ p) ''AzureLql'' \<and> p \<notin> set (azure_accounts st) \<and>
                    (\<exists>m\<in>set machine_accounts. PROJECTID m = Some p \<and> VMPROVIDER m = Some ''Azure'')))) \<and>
         (\<forall>m p st. PROJECTID m = Some p \<and> VMPROVIDER m = Some ''GCE'' \<and> p \<in> set (gcp_accounts st)
            \<longrightarrow> telemetry_row lw m st = st)"
proof -
  let ?st0 = "\<lparr> accounts = [], aws_accounts = [], gcp_accounts = [], azure_accounts = [] \<rparr>"
  from assms(3) obtain st where st: "integration_pass lw organization ?st0 integrations = Inr st"
    and res: "result = accounts (telemetry_pass lw st machine_accounts)"
    by (auto simp add: get_cloud_accounts_def split: sum.splits)
  from inv_integration_pass [OF inv_initial assms(1,2) st] have "discovery_inv st" .
  then have "discovery_inv (telemetry_pass lw st machine_accounts)"
    by (rule inv_telemetry_pass)
  with res have d: "distinct (map a_accountId result)"
    by (simp add: discovery_inv_def)
  from telemetry_pass_appends [of lw st machine_accounts] res
  obtain new where "result = accounts st @ new" "\<forall>a\<in>set new. lql_candidate lw st machine_accounts a"
    by auto
  with st d gcp_candidate_dropped show ?thesis
    unfolding lql_candidate_def by blast
qed

theorem cloud_accounts_distinct_witness:
  "\<exists>result. get_cloud_accounts ex_integrations ex_machine_accounts ''t'' None = Inr result \<and>
     distinct (map a_accountId result) \<and>
     map (\<lambda>a. (a_accountId a, a_type a)) result =
       [(''gcp:123:p1'', ''GcpCfg''), (''gcp:123:p2'', ''GcpCfg''), (''aws:111122223333'', ''AwsCfg''),
        (''az:tn:AB-1'', ''AzureCfg''), (''aws:999'', ''AwsLql''), (''gcp::p9'', ''GcpLql'')]"
proof -
  have h1: "\<forall>r\<in>set ex_integrations. CHR '':'' \<notin> set (i_data_id r) \<and> CHR '':'' \<notin> set (i_tenantId r)"
    by (simp add: ex_integrations_def)
  have h2: "CHR '':'' \<notin> set (fmt None)"
    by (simp add: fmt_def)
  have "map_sum id (map (\<lambda>a. (a_accountId a, a_type a)))
          (get_cloud_accounts ex_integrations ex_machine_accounts ''t'' None) =
        Inr [(''gcp:123:p1'', ''GcpCfg''), (''gcp:123:p2'', ''GcpCfg''), (''aws:111122223333'', ''AwsCfg''),
             (''az:tn:AB-1'', ''AzureCfg''), (''aws:999'', ''AwsLql''), (''gcp::p9'', ''GcpLql'')]"
    by code_simp
  then obtain result where r: "get_cloud_accounts ex_integrations ex_machine_accounts ''t'' None = Inr result"
    and v: "map (\<lambda>a. (a_accountId a, a_type a)) result =
       [(''gcp:123:p1'', ''GcpCfg''), (''gcp:123:p2'', ''GcpCfg''), (''aws:111122223333'', ''AwsCfg''),
        (''az:tn:AB-1'', ''AzureCfg''), (''aws:999'', ''AwsLql''), (''gcp::p9'', ''GcpLql'')]"
    by (cases "get_cloud_accounts ex_integrations ex_machine_accounts ''t'' None") simp_all
  from cloud_accounts_distinct [OF h1 h2 r] have d: "distinct (map a_accountId result)"
    by (rule conjunct1)
  show ?thesis
    by (rule exI [of _ result]) (simp only: r v d simp_thms)
qed

subsection \<open>What the vulnerability report returns\<close>



lemma add_context_columns_None: "add_context_columns ca lw None = Inr (Rows [], None)"
  by (simp add: add_context_columns_def)

lemma add_context_columns_empty:
  "rows t = [] \<Longrightarrow> add_context_columns ca lw (Some t) = Inl IndexError"
  by (simp add: add_context_columns_def select_limit_1_keys_def)

lemma add_context_columns_present:
  assumes "rows t \<noteq> []" "''accountId'' \<in> set (map fst (columns t))" "''lwAccount'' \<in> set (map fst (columns t))"
  shows "add_context_columns ca lw (Some t) =
           Inr (Keys (map fst (columns t)),
                Some (update_where_null ''lwAccount'' lw (update_where_null ''accountId'' ca t)))"
  using assms by (cases "rows t") (simp_all add: add_context_columns_def select_limit_1_keys_def)

lemma add_context_columns_dup_account:
  assumes "rows t \<noteq> []" "''accountId'' \<in> set (map fst (columns t))" "''lwAccount'' \<notin> set (map fst (columns t))"
  shows "add_context_columns ca lw (Some t) = Inl (OperationalError (DuplicateColumnName ''accountId''))"
  using assms
  by (cases "rows t") (simp_all add: add_context_columns_def select_limit_1_keys_def alter_add_column_def)

lemma add_context_columns_dup_lw:
  assumes "rows t \<noteq> []" "''accountId'' \<notin> set (map fst (columns t))" "''lwAccount'' \<in> set (map fst (columns t))"
  shows "add_context_columns ca lw (Some t) = Inl (OperationalError (DuplicateColumnName ''lwAccount''))"
  using assms
  by (cases "rows t") (simp_all add: add_context_columns_def select_limit_1_keys_def alter_add_column_def)

lemma add_context_columns_absent:
  assumes "rows t \<noteq> []" "''accountId'' \<notin> set (map fst (columns t))" "''lwAccount'' \<notin> set (map fst (columns t))"
  shows "add_context_columns ca lw (Some t) =
           Inr (Keys (map fst (columns t)),
                Some (update_where_null ''lwAccount'' lw
                        (update_where_null ''accountId'' ca
                           (t\<lparr> columns := columns t @ [(''accountId'', TEXT), (''lwAccount'', TEXT)] \<rparr>))))"
  using assms
  by (cases "rows t") (simp_all add: add_context_columns_def select_limit_1_keys_def alter_add_column_def)

lemma add_context_columns_result:
  "add_context_columns cloud_account lw db' =
     (case db' of
                None \<Rightarrow> Inr (Rows [], None)
              | Some t \<Rightarrow>
                  if rows t = [] then Inl IndexError
                  else if ''accountId'' \<in> set (map fst (columns t)) \<and> ''lwAccount'' \<in> set (map fst (columns t)) then
                    Inr (Keys (map fst (columns t)),
                         Some (update_where_null ''lwAccount'' lw
                                 (update_where_null ''accountId'' cloud_account t)))
                  else if ''accountId'' \<in> set (map fst (columns t)) then
                    Inl (OperationalError (DuplicateColumnName ''accountId''))
                  else if ''lwAccount'' \<in> set (map fst (columns t)) then
                    Inl (OperationalError (DuplicateColumnName ''lwAccount''))
                  else
                    Inr (Keys (map fst (columns t)),
                         Some (update_where_null ''lwAccount'' lw
                                 (update_where_null ''accountId'' cloud_account
                                    (t\<lparr> columns := columns t @ [(''accountId'', TEXT), (''lwAccount'', TEXT)] \<rparr>)))))"
proof (cases db')
  case None
  then show ?thesis
    by (simp add: add_context_columns_None)
next
  case (Some t)
  then show ?thesis
    using add_context_columns_empty [of t cloud_account lw]
      add_context_columns_present [of t cloud_account lw]
      add_context_columns_dup_account [of t cloud_account lw]
      add_context_columns_dup_lw [of t cloud_account lw]
      add_context_columns_absent [of t cloud_account lw]
    by simp
qed

lemma gvr_dict:
  assumes "account_filters cloud_account = Inr fs"
    and "export DICT (base_filters fixable sev namespace cve @ fs) db = Some (report, db')"
  shows "get_vulnerability_report export lw cloud_account ignore_errors fixable sev namespace cve False db
           = Inr (Rows (map (with_context cloud_account lw) report), db')"
  using assms by (simp add: get_vulnerability_report_def)

lemma gvr_sqlite:
  assumes "account_filters cloud_account = Inr fs"
    and "export SQLITE (base_filters fixable sev namespace cve @ fs) db = Some (report, db')"
  shows "get_vulnerability_report export lw cloud_account ignore_errors fixable sev namespace cve True db
           = add_context_columns cloud_account lw db'"
  using assms by (simp add: get_vulnerability_report_def)

text \<open>
  C10.  Let the account key be well formed and the query and export succeed, the
  export returning \<open>report\<close> and leaving the table \<open>db'\<close>.  With \<^verbatim>\<open>use_sqlite\<close> the
  returned value never holds \<open>report\<close>: without a table it is the empty list; with a
  table it is the list of the table's column names as the probe saw them, before the
  two context columns are added (or the call raises: \<^verbatim>\<open>IndexError\<close> when the table
  has no row, the engine's duplicate-column error when exactly one of the two context
  columns exists).  Without \<^verbatim>\<open>use_sqlite\<close> it is \<open>report\<close> with \<^verbatim>\<open>accountId\<close> and
  \<^verbatim>\<open>lwAccount\<close> set on every row.
\<close>

theorem vulnerability_report_value:
  assumes "account_filters cloud_account = Inr fs"
    and "export (if use_sqlite then SQLITE else DICT) (base_filters fixable sev namespace cve @ fs) db
           = Some (report, db')"
  shows "get_vulnerability_report export lw cloud_account ignore_errors fixable sev namespace cve use_sqlite db =
           (if use_sqlite then
              (case db' of
                None \<Rightarrow> Inr (Rows [], None)
              | Some t \<Rightarrow>
                  if rows t = [] then Inl IndexError
                  else if ''accountId'' \<in> set (map fst (columns t)) \<and> ''lwAccount'' \<in> set (map fst (columns t)) then
                    Inr (Keys (map fst (columns t)),
                         Some (update_where_null ''lwAccount'' lw
                                 (update_where_null ''accountId'' cloud_account t)))
                  else if ''accountId'' \<in> set (map fst (columns t)) then
                    Inl (OperationalError (DuplicateColumnName ''accountId''))
                  else if ''lwAccount'' \<in> set (map fst (columns t)) then
                    Inl (OperationalError (DuplicateColumnName ''lwAccount''))
                  else
                    Inr (Keys (map fst (columns t)),
                         Some (update_where_null ''lwAccount'' lw
                                 (update_where_null ''accountId'' cloud_account
                                    (t\<lparr> columns := columns t @ [(''accountId'', TEXT), (''lwAccount'', TEXT)] \<rparr>)))))
            else Inr (Rows (map (with_context cloud_account lw) report), db'))"
proof (cases use_sqlite)
  case True
  with assms gvr_sqlite [of cloud_account fs export fixable sev namespace cve db report db' lw ignore_errors]
  show ?thesis
    by (simp only: add_context_columns_result if_True)
next
  case False
  with assms gvr_dict [of cloud_account fs export fixable sev namespace cve db report db' lw ignore_errors]
  show ?thesis
    by simp
qed

theorem vulnerability_report_value_witness:
  "get_vulnerability_report ex_export ''t'' ''aws:1'' True True HIGH None None True None =
     Inr (Keys [''vulnId''],
          Some \<lparr> columns = [(''vulnId'', TEXT), (''accountId'', TEXT), (''lwAccount'', TEXT)],
                 rows = [[(''vulnId'', PStr ''cve1''), (''accountId'', PStr ''aws:1''),
                          (''lwAccount'', PStr ''t'')]] \<rparr>) \<and>
   get_vulnerability_report ex_export ''t'' ''aws:1'' True True HIGH None None False None =
     Inr (Rows [[(''vulnId'', PStr ''cve1''), (''accountId'', PStr ''aws:1''), (''lwAccount'', PStr ''t'')]],
          None)"
proof -
  have f: "account_filters ''aws:1'' =
      Inr [Filter_values ''machineTags.VmProvider'' ''in'' [''AWS''],
           Filter_value ''machineTags.Account'' ''eq'' (PStr ''1'')]"
    by code_simp
  let ?fs = "[Filter_values ''machineTags.VmProvider'' ''in'' [''AWS''],
              Filter_value ''machineTags.Account'' ''eq'' (PStr ''1'')]"
  let ?t = "\<lparr> columns = [(''vulnId'', TEXT)], rows = [[(''vulnId'', PStr ''cve1'')]] \<rparr>"
  have e1: "ex_export (if True then SQLITE else DICT) (base_filters True HIGH None None @ ?fs) None
      = Some ([[(''vulnId'', PStr ''cve1'')]], Some ?t)"
    by (simp add: ex_export_def)
  have e2: "ex_export (if False then SQLITE else DICT) (base_filters True HIGH None None @ ?fs) None
      = Some ([[(''vulnId'', PStr ''cve1'')]], None)"
    by (simp add: ex_export_def)
  from vulnerability_report_value
    [where export = ex_export and use_sqlite = True and fixable = True and sev = HIGH and namespace = None and cve = None and db = None and lw = "''t''" and ignore_errors = True, OF f e1]
  have "get_vulnerability_report ex_export ''t'' ''aws:1'' True True HIGH None None True None =
     Inr (Keys [''vulnId''],
          Some \<lparr> columns = [(''vulnId'', TEXT), (''accountId'', TEXT), (''lwAccount'', TEXT)],
                 rows = [[(''vulnId'', PStr ''cve1''), (''accountId'', PStr ''aws:1''),
                          (''lwAccount'', PStr ''t'')]] \<rparr>)"
    by (simp add: update_where_null_def row_get_def)
  moreover from vulnerability_report_value
    [where export = ex_export and use_sqlite = False and fixable = True and sev = HIGH and namespace = None and cve = None and db = None and lw = "''t''" and ignore_errors = True, OF f e2]
  have "get_vulnerability_report ex_export ''t'' ''aws:1'' True True HIGH None None False None =
     Inr (Rows [[(''vulnId'', PStr ''cve1''), (''accountId'', PStr ''aws:1''), (''lwAccount'', PStr ''t'')]],
          None)"
    by (simp add: with_context_def)
  ultimately show ?thesis
    by blast
qed

end
